theory Spec2Isabelle
  imports Main
begin

section \<open>JavaScript values and strings\<close>

text \<open>
  The transformers read request and response bodies typed \<open>any\<close>.  Such a value is
  modelled as a JSON tree, extended with \<open>undefined\<close> (what a missing property reads as).
  Strings are lists of 8-bit characters: a JavaScript string is represented by its UTF-8
  bytes.  Numbers are integers; fractions, NaN and the infinities are outside the model,
  and integer arithmetic is exact in the range the token limits live in.
\<close>

datatype js =
    JUndefined
  | JNull
  | JBool bool
  | JNum int
  | JStr string
  | JArr "js list"
  | JObj "(string \<times> js) list"

abbreviation NL :: char where
  "NL \<equiv> CHR 0x0A"

definition toLowerChar :: "char \<Rightarrow> char" where
  "toLowerChar c =
     (let n = (of_char c :: nat) in if 65 \<le> n \<and> n \<le> 90 then char_of (n + 32) else c)"

definition toLowerCase :: "string \<Rightarrow> string" where
  \<comment> \<open>\<open>String.prototype.toLowerCase\<close> on the ASCII letters (model identifiers are ASCII).\<close>
  "toLowerCase s = map toLowerChar s"

primrec startsWith :: "string \<Rightarrow> string \<Rightarrow> bool" where
  "startsWith s [] = True"
| "startsWith s (p # ps) = (case s of [] \<Rightarrow> False | c # cs \<Rightarrow> c = p \<and> startsWith cs ps)"

primrec includes_str :: "string \<Rightarrow> string \<Rightarrow> bool" where
  \<comment> \<open>\<open>s.includes(sub)\<close>\<close>
  "includes_str [] sub = (sub = [])"
| "includes_str (c # cs) sub = (startsWith (c # cs) sub \<or> includes_str cs sub)"

definition num_or :: "int option \<Rightarrow> int \<Rightarrow> int" where
  \<comment> \<open>\<open>a || b\<close> for an optional number \<open>a\<close>: \<open>undefined\<close> and \<open>0\<close> are falsy.\<close>
  "num_or a b = (case a of None \<Rightarrow> b | Some n \<Rightarrow> if n = 0 then b else n)"

definition num_truthy :: "int option \<Rightarrow> bool" where
  "num_truthy a = (case a of None \<Rightarrow> False | Some n \<Rightarrow> n \<noteq> 0)"


subsection \<open>Dynamic typing\<close>

datatype js_error = TypeError | SyntaxError

definition is_nullish :: "js \<Rightarrow> bool" where
  "is_nullish v = (v = JNull \<or> v = JUndefined)"

definition js_truthy :: "js \<Rightarrow> bool" where
  "js_truthy v =
     (case v of
        JUndefined \<Rightarrow> False | JNull \<Rightarrow> False | JBool b \<Rightarrow> b | JNum n \<Rightarrow> n \<noteq> 0
      | JStr s \<Rightarrow> s \<noteq> [] | JArr _ \<Rightarrow> True | JObj _ \<Rightarrow> True)"

definition js_typeof :: "js \<Rightarrow> string" where
  "js_typeof v =
     (case v of
        JUndefined \<Rightarrow> ''undefined'' | JNull \<Rightarrow> ''object'' | JBool _ \<Rightarrow> ''boolean''
      | JNum _ \<Rightarrow> ''number'' | JStr _ \<Rightarrow> ''string'' | JArr _ \<Rightarrow> ''object''
      | JObj _ \<Rightarrow> ''object'')"

definition js_or :: "js \<Rightarrow> js \<Rightarrow> js" where
  \<comment> \<open>\<open>a || b\<close>\<close>
  "js_or a b = (if js_truthy a then a else b)"

text \<open>
  \<open>js_get v k\<close> reads the data property \<open>k\<close> of a value that is not \<open>null\<close> or
  \<open>undefined\<close> (on those, JavaScript throws; every definition below tests
  \<open>is_nullish\<close> first wherever the source reads a property of a value that can be
  nullish).  Only an object has data properties under the names the source reads; an
  absent property, and any such property of an array, string, number or boolean, reads
  as \<open>undefined\<close>.  \<open>js_index v i\<close> is \<open>v[i]\<close>.
\<close>

definition js_get :: "js \<Rightarrow> string \<Rightarrow> js" where
  "js_get v k =
     (case v of
        JObj kvs \<Rightarrow> (case map_of kvs k of None \<Rightarrow> JUndefined | Some x \<Rightarrow> x)
      | _ \<Rightarrow> JUndefined)"

definition js_opt_get :: "js \<Rightarrow> string \<Rightarrow> js" where
  \<comment> \<open>\<open>v?.k\<close>\<close>
  "js_opt_get v k = (if is_nullish v then JUndefined else js_get v k)"

definition js_index :: "js \<Rightarrow> nat \<Rightarrow> js" where
  "js_index v i =
     (case v of
        JArr xs \<Rightarrow> (if i < length xs then xs ! i else JUndefined)
      | JStr s \<Rightarrow> (if i < length s then JStr [s ! i] else JUndefined)
      | JObj kvs \<Rightarrow>
          (if i = 0 then (case map_of kvs ''0'' of None \<Rightarrow> JUndefined | Some x \<Rightarrow> x)
           else JUndefined)
      | _ \<Rightarrow> JUndefined)"

definition js_opt_index :: "js \<Rightarrow> nat \<Rightarrow> js" where
  \<comment> \<open>\<open>v?.[i]\<close>\<close>
  "js_opt_index v i = (if is_nullish v then JUndefined else js_index v i)"

text \<open>
  Assignment to and deletion of a property of an object.  The object is a tree built by
  \<open>JSON.parse\<close>, so an update in place is an update of the tree.  On a value that is
  not an object the functions return the value unchanged; the handlers reach them only
  with objects.
\<close>

fun assoc_set :: "(string \<times> js) list \<Rightarrow> string \<Rightarrow> js \<Rightarrow> (string \<times> js) list" where
  "assoc_set [] k v = [(k, v)]"
| "assoc_set ((k', v') # kvs) k v =
     (if k' = k then (k', v) # kvs else (k', v') # assoc_set kvs k v)"

definition js_set :: "js \<Rightarrow> string \<Rightarrow> js \<Rightarrow> js" where
  "js_set obj k v = (case obj of JObj kvs \<Rightarrow> JObj (assoc_set kvs k v) | _ \<Rightarrow> obj)"

definition js_delete :: "js \<Rightarrow> string \<Rightarrow> js" where
  "js_delete obj k =
     (case obj of JObj kvs \<Rightarrow> JObj (filter (\<lambda>kv. fst kv \<noteq> k) kvs) | _ \<Rightarrow> obj)"

definition js_update :: "js \<Rightarrow> string \<Rightarrow> (js \<Rightarrow> js) \<Rightarrow> js" where
  \<comment> \<open>Update, in place, the object stored under property \<open>k\<close>.\<close>
  "js_update obj k f = js_set obj k (f (js_get obj k))"

definition js_update_index0 :: "js \<Rightarrow> (js \<Rightarrow> js) \<Rightarrow> js" where
  \<comment> \<open>Update, in place, the object stored at \<open>v[0]\<close>.\<close>
  "js_update_index0 v f =
     (case v of
        JArr xs \<Rightarrow> (case xs of [] \<Rightarrow> v | x # rest \<Rightarrow> JArr (f x # rest))
      | JObj kvs \<Rightarrow> js_update v ''0'' f
      | _ \<Rightarrow> v)"

subsection \<open>Conversion to string\<close>

function show_nat :: "nat \<Rightarrow> string" where
  "show_nat n =
     (if n < 10 then [char_of (48 + n)] else show_nat (n div 10) @ [char_of (48 + n mod 10)])"
  by pat_completeness auto
termination
  by (relation "measure id") auto

definition show_int :: "int \<Rightarrow> string" where
  "show_int i = (if i < 0 then CHR ''-'' # show_nat (nat (- i)) else show_nat (nat i))"

primrec join_str :: "string \<Rightarrow> string list \<Rightarrow> string" where
  \<comment> \<open>\<open>Array.prototype.join\<close> on strings\<close>
  "join_str sep [] = []"
| "join_str sep (x # xs) = (if xs = [] then x else x @ sep @ join_str sep xs)"

fun js_to_string :: "js \<Rightarrow> string" where
  \<comment> \<open>\<open>String(v)\<close>, a template literal's \<open>${v}\<close>, and \<open>v.toString()\<close> where \<open>v\<close> is not nullish\<close>
  "js_to_string JUndefined = ''undefined''"
| "js_to_string JNull = ''null''"
| "js_to_string (JBool b) = (if b then ''true'' else ''false'')"
| "js_to_string (JNum n) = show_int n"
| "js_to_string (JStr s) = s"
| "js_to_string (JArr xs) =
     join_str '','' (map (\<lambda>x. if x = JNull \<or> x = JUndefined then [] else js_to_string x) xs)"
| "js_to_string (JObj kvs) = ''[object Object]''"

definition js_join :: "string \<Rightarrow> js list \<Rightarrow> string" where
  \<comment> \<open>\<open>Array.prototype.join\<close>: \<open>null\<close> and \<open>undefined\<close> elements give the empty string\<close>
  "js_join sep xs =
     join_str sep (map (\<lambda>x. if x = JNull \<or> x = JUndefined then [] else js_to_string x) xs)"

subsection \<open>Whitespace\<close>

text \<open>
  \<open>String.prototype.trim\<close> removes the white space and line terminator code points of
  ECMAScript; \<open>ws_len s\<close> is the length in bytes of such a code point at the head of
  \<open>s\<close>, or 0: the ASCII ones (tab, LF, VT, FF, CR, space), U+00A0, U+1680,
  U+2000 to U+200A, U+2028, U+2029, U+202F, U+205F, U+3000 and U+FEFF.
\<close>

definition byte :: "char \<Rightarrow> nat" where
  "byte c = of_char c"

definition ws_len :: "string \<Rightarrow> nat" where
  "ws_len s =
     (case s of
        [] \<Rightarrow> 0
      | c # r \<Rightarrow>
          (if byte c \<in> {9, 10, 11, 12, 13, 32} then 1
           else if byte c = 0xC2 \<and> map byte (take 1 r) = [0xA0] then 2
           else if byte c = 0xE1 \<and> map byte (take 2 r) = [0x9A, 0x80] then 3
           else if byte c = 0xE2 \<and> map byte (take 1 r) = [0x80] \<and> length r \<ge> 2 \<and>
                   ((0x80 \<le> byte (r ! 1) \<and> byte (r ! 1) \<le> 0x8A) \<or>
                    byte (r ! 1) \<in> {0xA8, 0xA9, 0xAF}) then 3
           else if byte c = 0xE2 \<and> map byte (take 2 r) = [0x81, 0x9F] then 3
           else if byte c = 0xE3 \<and> map byte (take 2 r) = [0x80, 0x80] then 3
           else if byte c = 0xEF \<and> map byte (take 2 r) = [0xBB, 0xBF] then 3
           else 0))"

definition ws_len_end :: "string \<Rightarrow> nat" where
  \<comment> \<open>the length in bytes of a white space code point at the end of \<open>s\<close>, or 0\<close>
  "ws_len_end s =
     (if 1 \<le> length s \<and> ws_len (drop (length s - 1) s) = 1 then 1
      else if 2 \<le> length s \<and> ws_len (drop (length s - 2) s) = 2 then 2
      else if 3 \<le> length s \<and> ws_len (drop (length s - 3) s) = 3 then 3
      else 0)"

function trimStart :: "string \<Rightarrow> string" where
  "trimStart s = (if ws_len s = 0 \<or> s = [] then s else trimStart (drop (ws_len s) s))"
  by pat_completeness auto
termination
  by (relation "measure length") auto

function trimEnd :: "string \<Rightarrow> string" where
  "trimEnd s =
     (if ws_len_end s = 0 \<or> s = [] then s else trimEnd (take (length s - ws_len_end s) s))"
  by pat_completeness auto
termination
  by (relation "measure length") auto

definition trim :: "string \<Rightarrow> string" where
  "trim s = trimEnd (trimStart s)"

subsection \<open>Platform functions\<close>

text \<open>
  \<open>JSON.parse\<close> and \<open>JSON.stringify\<close> belong to the platform, not to the repository; the
  model takes them as parameters.  \<open>parse s = None\<close> stands for the SyntaxError of
  \<open>JSON.parse\<close>.  \<open>stringify\<close> is \<open>JSON.stringify(v)\<close> and \<open>stringify2\<close> is
  \<open>JSON.stringify(v, null, 2)\<close>, on a value other than \<open>undefined\<close>; on \<open>undefined\<close>
  both return \<open>undefined\<close>.
\<close>

record platform =
  parse :: "string \<Rightarrow> js option"
  stringify :: "js \<Rightarrow> string"
  stringify2 :: "js \<Rightarrow> string"

definition JSON_stringify :: "platform \<Rightarrow> js \<Rightarrow> js" where
  "JSON_stringify P v = (if v = JUndefined then JUndefined else JStr (stringify P v))"


text \<open>
  A platform instance for evaluating the model on concrete inputs.  Its parser knows
  the payloads used in the examples; its serialiser prints strings between quotes and
  every other value as \<open>{}\<close>.
\<close>

definition example_payloads :: "(string \<times> js) list" where
  "example_payloads =
     [(''{\"type\":\"response.completed\"}'',
         JObj [(''type'', JStr ''response.completed'')]),
      (''{\"type\":\"response.incomplete\"}'',
         JObj [(''type'', JStr ''response.incomplete'')]),
      (''{\"choices\":[{\"delta\":{\"refusal\":\"no\"}}]}'',
         JObj [(''choices'', JArr [JObj [(''delta'', JObj [(''refusal'', JStr ''no'')])]])]),
      (''{\"choices\":[{\"message\":{\"refusal\":\"no\"}}]}'',
         JObj [(''choices'', JArr [JObj [(''message'', JObj [(''refusal'', JStr ''no'')])]])]),
      (''null'', JNull)]"

definition example_stringify :: "js \<Rightarrow> string" where
  "example_stringify v = (case v of JStr s \<Rightarrow> ''\"'' @ s @ ''\"'' | _ \<Rightarrow> ''{}'')"

definition example_platform :: platform where
  "example_platform =
     \<lparr> parse = map_of example_payloads, stringify = example_stringify,
       stringify2 = example_stringify \<rparr>"


section \<open>Requests\<close>

text \<open>
  The fields of \<open>UnifiedChatRequest\<close> that the token calculation and the message
  encoding read.  \<open>messages\<close> and \<open>tools\<close> are arrays of \<open>any\<close>.
\<close>

record UnifiedChatRequest =
  model :: string
  messages :: "js list"
  max_tokens :: "int option"
  max_completion_tokens :: "int option"
  tools :: "js list option"


section \<open>Responses API V2: options and token calculation\<close>

text \<open>
  \<open>ResponsesApiV2Options\<close>: the options the claims depend on.  The constructor spreads
  the caller's options over the defaults, so an option the caller leaves out keeps its
  default.
\<close>

record ResponsesApiV2Options =
  minTokensForTools :: int
  fallbackEnabled :: bool
  continuousExecution :: bool
  alwaysContinueWithTools :: bool

record TransformerOptions =
  opt_minTokensForTools :: "int option"
  opt_fallbackEnabled :: "bool option"
  opt_continuousExecution :: "bool option"
  opt_alwaysContinueWithTools :: "bool option"

definition default_options :: ResponsesApiV2Options where
  "default_options =
     \<lparr> minTokensForTools = 15000, fallbackEnabled = False,
       continuousExecution = True, alwaysContinueWithTools = True \<rparr>"

definition constructor_v2 :: "TransformerOptions option \<Rightarrow> ResponsesApiV2Options" where
  "constructor_v2 options =
     (case options of
        None \<Rightarrow> default_options
      | Some u \<Rightarrow>
          \<lparr> minTokensForTools =
              (case opt_minTokensForTools u of None \<Rightarrow> 15000 | Some v \<Rightarrow> v),
            fallbackEnabled =
              (case opt_fallbackEnabled u of None \<Rightarrow> False | Some v \<Rightarrow> v),
            continuousExecution =
              (case opt_continuousExecution u of None \<Rightarrow> True | Some v \<Rightarrow> v),
            alwaysContinueWithTools =
              (case opt_alwaysContinueWithTools u of None \<Rightarrow> True | Some v \<Rightarrow> v) \<rparr>)"

definition MODEL_TOKEN_LIMITS :: "(string \<times> int) list" where
  "MODEL_TOKEN_LIMITS =
     [(''o3'', 100000), (''o3-mini'', 16384), (''o4-mini'', 32768),
      (''gpt-4.1'', 32767), (''gpt-4o'', 32767), (''default'', 16384)]"

definition modelMax :: "string \<Rightarrow> int" where
  \<comment> \<open>\<open>MODEL_TOKEN_LIMITS[model] || MODEL_TOKEN_LIMITS.default\<close>\<close>
  "modelMax m = num_or (map_of MODEL_TOKEN_LIMITS m) 16384"

definition isReasoningModel :: "string \<Rightarrow> bool" where
  "isReasoningModel m =
     (let modelLower = toLowerCase m in
        includes_str modelLower ''o1'' \<or> includes_str modelLower ''o3'' \<or>
        includes_str modelLower ''o4'')"

record TokenCalculation =
  base :: int
  toolOverhead :: int
  reasoningOverhead :: int
  historyOverhead :: int
  total :: int
  cappedAt :: "int option"

definition hasTools :: "UnifiedChatRequest \<Rightarrow> bool" where
  \<comment> \<open>\<open>request.tools && request.tools.length > 0\<close>\<close>
  "hasTools request = (case tools request of None \<Rightarrow> False | Some ts \<Rightarrow> length ts > 0)"

definition toolCount :: "UnifiedChatRequest \<Rightarrow> int" where
  "toolCount request = (case tools request of None \<Rightarrow> 0 | Some ts \<Rightarrow> int (length ts))"

text \<open>
  \<open>calculateOptimalTokens\<close>.  Each commented block of the source (tool overhead,
  reasoning overhead, history overhead, minimums, model-specific minimums, cap) is one
  definition; \<open>calculateOptimalTokens\<close> runs them in the order of the source.
\<close>

definition toolOverheadOf :: "UnifiedChatRequest \<Rightarrow> int" where
  "toolOverheadOf request = (if hasTools request then toolCount request * 2000 + 5000 else 0)"

definition reasoningOverheadOf :: "string \<Rightarrow> int" where
  "reasoningOverheadOf m =
     (if isReasoningModel m then (if includes_str m ''o4'' then 10000 else 5000) else 0)"

definition historyOverheadOf :: "UnifiedChatRequest \<Rightarrow> int" where
  "historyOverheadOf request =
     (let messageCount = int (length (messages request))
      in if messageCount > 5 then messageCount * 200 else 0)"

definition applyMinimums :: "ResponsesApiV2Options \<Rightarrow> UnifiedChatRequest \<Rightarrow> int \<Rightarrow> int" where
  "applyMinimums opts request t = (if hasTools request then max t (minTokensForTools opts) else t)"

definition modelMinimums :: "string \<Rightarrow> int \<Rightarrow> int" where
  "modelMinimums m t =
     (if includes_str m ''o4-mini'' then max t 25000
      else if includes_str m ''o3'' then max t 15000
      else t)"

definition calculateOptimalTokens ::
  "ResponsesApiV2Options \<Rightarrow> UnifiedChatRequest \<Rightarrow> TokenCalculation" where
  "calculateOptimalTokens opts request =
     (let baseTokens = num_or (max_tokens request) (num_or (max_completion_tokens request) 4000);
          m = toLowerCase (model request);
          calc = \<lparr> base = baseTokens, toolOverhead = toolOverheadOf request,
                   reasoningOverhead = reasoningOverheadOf m,
                   historyOverhead = historyOverheadOf request,
                   total = baseTokens, cappedAt = None \<rparr>;
          t = base calc + toolOverhead calc + reasoningOverhead calc + historyOverhead calc;
          t = modelMinimums m (applyMinimums opts request t);
          mx = modelMax m
      in if t > mx then calc\<lparr> cappedAt := Some mx, total := mx \<rparr> else calc\<lparr> total := t \<rparr>)"


definition uncapped :: "ResponsesApiV2Options \<Rightarrow> UnifiedChatRequest \<Rightarrow> int" where
  \<comment> \<open>The total before the cap at the model's maximum.\<close>
  "uncapped opts r =
     modelMinimums (toLowerCase (model r))
       (applyMinimums opts r
          (num_or (max_tokens r) (num_or (max_completion_tokens r) 4000) + toolOverheadOf r
             + reasoningOverheadOf (toLowerCase (model r)) + historyOverheadOf r))"


section \<open>Responses API (first transformer): the token clamp of transformRequestIn\<close>






section \<open>Message encoding for the Responses API\<close>






definition imageTypeOf :: "js \<Rightarrow> string" where
  \<comment> \<open>\<open>role === 'assistant' ? 'output_image' : 'input_image'\<close>\<close>
  "imageTypeOf r = (if r = JStr ''assistant'' then ''output_image'' else ''input_image'')"

fun map_err :: "('a \<Rightarrow> 'e + 'b) \<Rightarrow> 'a list \<Rightarrow> 'e + 'b list" where
  \<comment> \<open>\<open>Array.prototype.map\<close> with a callback that can throw\<close>
  "map_err f [] = Inr []"
| "map_err f (x # xs) =
     (case f x of
        Inl e \<Rightarrow> Inl e
      | Inr y \<Rightarrow> (case map_err f xs of Inl e \<Rightarrow> Inl e | Inr ys \<Rightarrow> Inr (y # ys)))"

subsection \<open>The first Responses API transformer\<close>

text \<open>
  \<open>ResponsesApiTransformer.transformMessages\<close> returns plain objects and leaves the items
  it does not rewrite as they are, so its result is a list of \<open>js\<close> values.
\<close>

definition spread_over :: "(string \<times> js) list \<Rightarrow> (string \<times> js) list \<Rightarrow> (string \<times> js) list" where
  \<comment> \<open>\<open>{ ...base, ...item }\<close>: the properties of \<open>item\<close> assigned over those of \<open>base\<close>\<close>
  "spread_over b item = foldl (\<lambda>acc kv. assoc_set acc (fst kv) (snd kv)) b item"

definition v1_transformItem :: "js \<Rightarrow> js \<Rightarrow> js_error + js" where
  "v1_transformItem r item =
     (let contentType = (if r = JStr ''assistant'' then ''output_text'' else ''input_text'') in
      if js_typeof item = ''string''
      then Inr (JObj [(''type'', JStr contentType), (''text'', item)])
      else if is_nullish item then Inl TypeError
      else if js_get item ''type'' = JStr ''text''
      then Inr (JObj [(''type'', JStr contentType), (''text'', js_get item ''text'')])
      else if js_get item ''type'' = JStr ''image''
      then (case item of
              JObj kvs \<Rightarrow> Inr (JObj (spread_over [(''type'', JStr (imageTypeOf r))] kvs))
            | _ \<Rightarrow> Inr item)
      else Inr item)"

definition v1_transformMessage :: "js \<Rightarrow> js_error + js" where
  "v1_transformMessage msg =
     (if is_nullish msg then Inl TypeError
      else
        (let r = js_get msg ''role'';
             contentType = (if r = JStr ''assistant'' then ''output_text'' else ''input_text'');
             c = js_get msg ''content''
         in case c of
              JStr s \<Rightarrow>
                Inr (JObj [(''role'', r),
                           (''content'', JArr [JObj [(''type'', JStr contentType), (''text'', c)]])])
            | JArr items \<Rightarrow>
                (case map_err (v1_transformItem r) items of
                   Inl e \<Rightarrow> Inl e
                 | Inr items' \<Rightarrow> Inr (JObj [(''role'', r), (''content'', JArr items')]))
            | _ \<Rightarrow> Inr (JObj [(''role'', r), (''content'', c)])))"

definition v1_transformMessages :: "js list \<Rightarrow> js_error + js list" where
  "v1_transformMessages msgs = map_err v1_transformMessage msgs"

subsection \<open>The V2 transformer\<close>











subsection \<open>The V2 transformer, second revision\<close>















section \<open>Decoding a Responses API response\<close>

text \<open>
  The response types of the repository's type declarations: \<open>ResponsesApiResponse\<close>, its
  output items \<open>MessageOutput\<close>, \<open>FunctionCallOutput\<close> and \<open>ReasoningOutput\<close>, and the
  content items of a message.  A field the code reads with \<open>?.\<close> is optional.  Of the
  chat completion that the decoders build, the model keeps the message content, the tool
  calls and the finish reason; the decoders' bookkeeping of tool calls in \<open>toolCallMap\<close>
  is left out.
\<close>

datatype ContentPart =
    InputTextContent string
  | OutputTextContent string
  | InputImageContent string
  | OutputImageContent string
  | ToolUseContent string string js

record MessageOutput =
  mo_id :: string
  mo_role :: string
  mo_content :: "ContentPart list option"
  mo_status :: "string option"

record FunctionCallOutput =
  fc_id :: string
  fc_name :: string
  fc_arguments :: string
  fc_call_id :: string
  fc_status :: string

datatype ResponsesApiOutput =
    Message MessageOutput
  | FunctionCall FunctionCallOutput
  | Reasoning string "string list"

record ResponsesApiResponse =
  resp_id :: string
  resp_model :: string
  resp_status :: string
  resp_output :: "ResponsesApiOutput list option"

record ToolCall =
  tc_id :: string
  tc_name :: string
  tc_arguments :: js

record ChatCompletion =
  cc_content :: "string option"
  cc_tool_calls :: "ToolCall list option"
  finish_reason :: string

definition find_message :: "ResponsesApiOutput list option \<Rightarrow> MessageOutput option" where
  \<comment> \<open>\<open>output?.find(o => o.type === 'message')\<close>\<close>
  "find_message out =
     (case out of
        None \<Rightarrow> None
      | Some items \<Rightarrow>
          (case List.find (\<lambda>x. case x of Message _ \<Rightarrow> True | _ \<Rightarrow> False) items of
             Some (Message m) \<Rightarrow> Some m
           | _ \<Rightarrow> None))"

definition filter_function_calls :: "ResponsesApiOutput list \<Rightarrow> FunctionCallOutput list" where
  \<comment> \<open>\<open>output.filter(o => o.type === 'function_call')\<close>\<close>
  "filter_function_calls items =
     List.map_filter (\<lambda>x. case x of FunctionCall f \<Rightarrow> Some f | _ \<Rightarrow> None) items"

definition find_output_text :: "ContentPart list option \<Rightarrow> string option" where
  \<comment> \<open>the \<open>text\<close> of \<open>content?.find(c => c.type === 'output_text')\<close>\<close>
  "find_output_text c =
     (case c of
        None \<Rightarrow> None
      | Some parts \<Rightarrow>
          (case List.find (\<lambda>p. case p of OutputTextContent _ \<Rightarrow> True | _ \<Rightarrow> False) parts of
             Some (OutputTextContent t) \<Rightarrow> Some t
           | _ \<Rightarrow> None))"

definition filter_tool_use :: "ContentPart list \<Rightarrow> (string \<times> string \<times> js) list" where
  \<comment> \<open>\<open>content.filter(c => c.type === 'tool_use')\<close>: id, name and input of each\<close>
  "filter_tool_use parts =
     List.map_filter (\<lambda>p. case p of ToolUseContent i n inp \<Rightarrow> Some (i, n, inp) | _ \<Rightarrow> None) parts"

subsection \<open>The continuation heuristic of V2\<close>

definition is_digit :: "char \<Rightarrow> bool" where
  "is_digit c = (48 \<le> byte c \<and> byte c \<le> 57)"

fun hasNumberedItem :: "string \<Rightarrow> bool" where
  \<comment> \<open>the regular expression \<open>\d+[.)]\<close>\<close>
  "hasNumberedItem (c # d # r) =
     ((is_digit c \<and> (d = CHR ''.'' \<or> d = CHR '')'')) \<or> hasNumberedItem (d # r))"
| "hasNumberedItem _ = False"

definition at_line_start :: "string \<Rightarrow> bool" where
  \<comment> \<open>The argument is the text before a position, reversed: the position is the start
      of the input or follows a line terminator (LF, CR, U+2028, U+2029).\<close>
  "at_line_start before =
     (before = [] \<or> hd before = NL \<or> byte (hd before) = 13 \<or>
      map byte (take 3 before) = [0xA8, 0x80, 0xE2] \<or>
      map byte (take 3 before) = [0xA9, 0x80, 0xE2])"

fun hasBulletLine_from :: "string \<Rightarrow> string \<Rightarrow> bool" where
  \<comment> \<open>the regular expression \<open>^[-*]\<close> with the multiline flag, searched in the second
      argument; the first is the text before it, reversed\<close>
  "hasBulletLine_from before [] = False"
| "hasBulletLine_from before (c # r) =
     ((at_line_start before \<and> (c = CHR ''-'' \<or> c = CHR ''*'')) \<or>
      hasBulletLine_from (c # before) r)"

definition utf16_length :: "string \<Rightarrow> nat" where
  \<comment> \<open>\<open>s.length\<close>: the UTF-16 code units of a string given by its UTF-8 bytes\<close>
  "utf16_length s =
     length (filter (\<lambda>c. \<not> (128 \<le> byte c \<and> byte c < 192)) s)
     + length (filter (\<lambda>c. 240 \<le> byte c) s)"

definition endsWith :: "string \<Rightarrow> string \<Rightarrow> bool" where
  "endsWith s suffix = startsWith (rev s) (rev suffix)"

definition continuationPhrases :: "string list" where
  "continuationPhrases =
     [''i'' @ [CHR 0x27] @ ''ll'', ''i will'', ''let me'', ''next'', ''continuing'', ''moving'',
      ''proceed'', ''going to'', ''working on'', ''starting'', ''now'',
      ''step'', ''task'', ''todo'', ''plan'', ''then'', ''after'',
      ''once'', ''when'', ''should'', ''need to'', ''have to'', ''must'']"

definition shouldContinue :: "string \<Rightarrow> ResponsesApiResponse \<Rightarrow> bool \<Rightarrow> bool" where
  \<comment> \<open>The first argument is \<open>this.currentModel\<close>.\<close>
  "shouldContinue currentModel response hasContent =
     (if resp_status response = ''incomplete'' then True
      else if (case resp_output response of
                 None \<Rightarrow> False
               | Some items \<Rightarrow> length (filter_function_calls items) > 0) then True
      else
        (let textContent = find_output_text
                             (case find_message (resp_output response) of
                                None \<Rightarrow> None | Some m \<Rightarrow> mo_content m);
             c = (case textContent of None \<Rightarrow> [] | Some t \<Rightarrow> toLowerCase t)
         in if c \<noteq> []
            then list_ex (\<lambda>phrase. includes_str c phrase) continuationPhrases
                 \<or> (hasNumberedItem c \<or> hasBulletLine_from [] c)
                 \<or> endsWith (trim c) '',''
                 \<or> includes_str c ''...''
                 \<or> isReasoningModel (if resp_model response \<noteq> [] then resp_model response
                                      else currentModel)
                 \<or> utf16_length c > 100
            else True))"

subsection \<open>V2: transformResponseToOpenAI\<close>

definition finishReasonForTools ::
  "ResponsesApiV2Options \<Rightarrow> bool \<Rightarrow> bool \<Rightarrow> bool \<Rightarrow> nat \<Rightarrow> string" where
  \<comment> \<open>The decision tree for \<open>finish_reason\<close>, entered when there are function calls:
      \<open>isIncomplete\<close>, \<open>hasContent\<close>, \<open>shouldContinue\<close> and \<open>functionCalls.length\<close>.\<close>
  "finishReasonForTools opts isIncomplete hasContent shouldCont n =
     (if isIncomplete then ''length''
      else if alwaysContinueWithTools opts \<and> n > 0 then ''stop''
      else if hasContent \<and> n > 0 then ''stop''
      else if n > 0 \<and> \<not> hasContent
      then (if continuousExecution opts \<or> shouldCont then ''stop'' else ''tool_calls'')
      else ''stop'')"

definition transformResponseToOpenAI ::
  "ResponsesApiV2Options \<Rightarrow> string \<Rightarrow> platform \<Rightarrow> ResponsesApiResponse \<Rightarrow> ChatCompletion" where
  "transformResponseToOpenAI opts currentModel P response =
     (let result = \<lparr> cc_content = None, cc_tool_calls = None, finish_reason = ''stop'' \<rparr>;
          messageOutput = find_message (resp_output response);
          functionCalls = (case resp_output response of
                             None \<Rightarrow> None | Some items \<Rightarrow> Some (filter_function_calls items));
          result =
            (case messageOutput of
               None \<Rightarrow> result
             | Some m \<Rightarrow>
                 (let result = (case find_output_text (mo_content m) of
                                  None \<Rightarrow> result
                                | Some t \<Rightarrow> result\<lparr> cc_content := Some t \<rparr>);
                      toolUses = (case mo_content m of
                                    None \<Rightarrow> [] | Some parts \<Rightarrow> filter_tool_use parts)
                  in if length toolUses > 0
                     then result\<lparr> cc_tool_calls :=
                            Some (map (\<lambda>(i, n, inp).
                                         \<lparr> tc_id = i, tc_name = n,
                                           tc_arguments = JSON_stringify P inp \<rparr>) toolUses) \<rparr>
                     else result));
          result =
            (case functionCalls of
               None \<Rightarrow> result
             | Some fcs \<Rightarrow>
                 (if length fcs > 0
                  then
                    (let toolCalls = map (\<lambda>fc. \<lparr> tc_id = fc_call_id fc, tc_name = fc_name fc,
                                                  tc_arguments = JStr (fc_arguments fc) \<rparr>) fcs;
                         result = result\<lparr> cc_tool_calls :=
                                    (case cc_tool_calls result of
                                       None \<Rightarrow> Some toolCalls
                                     | Some tcs \<Rightarrow> Some (tcs @ toolCalls)) \<rparr>;
                         hasContent = (case cc_content result of
                                         None \<Rightarrow> False
                                       | Some t \<Rightarrow> t \<noteq> [] \<and> trim t \<noteq> []);
                         isIncomplete = (resp_status response = ''incomplete'');
                         shouldCont = shouldContinue currentModel response hasContent
                     in result\<lparr> finish_reason :=
                          finishReasonForTools opts isIncomplete hasContent shouldCont (length fcs) \<rparr>)
                  else result));
          result =
            (if resp_status response = ''incomplete''
             then (let result = result\<lparr> finish_reason := ''length'' \<rparr>
                   in if (case cc_content result of None \<Rightarrow> True | Some t \<Rightarrow> t = [])
                      then result\<lparr> cc_content :=
                             Some ''[Response incomplete - token limit reached]'' \<rparr>
                      else result)
             else result)
      in if (case cc_tool_calls result of None \<Rightarrow> True | Some tcs \<Rightarrow> length tcs = 0)
         then result\<lparr> cc_tool_calls := None \<rparr>
         else result)"

subsection \<open>The first transformer: transformToOpenAIFormat\<close>

definition v1_function_tool_calls :: "string \<Rightarrow> FunctionCallOutput list \<Rightarrow> ToolCall list" where
  \<comment> \<open>the function calls as tool calls; \<open>prefix\<close> names a call without \<open>call_id\<close>\<close>
  "v1_function_tool_calls prefix fcs =
     map (\<lambda>(fc, index).
            \<lparr> tc_id = (if fc_call_id fc \<noteq> [] then fc_call_id fc else prefix @ show_nat index),
              tc_name = fc_name fc,
              tc_arguments = JStr (if fc_arguments fc \<noteq> [] then fc_arguments fc else ''{}'') \<rparr>)
         (zip fcs [0 ..< length fcs])"

definition v1_transformToOpenAIFormat :: "platform \<Rightarrow> ResponsesApiResponse \<Rightarrow> ChatCompletion" where
  "v1_transformToOpenAIFormat P response =
     (let messageOutput = find_message (resp_output response);
          functionCallOutputs = (case resp_output response of
                                   None \<Rightarrow> [] | Some items \<Rightarrow> filter_function_calls items)
      in case messageOutput of
           None \<Rightarrow>
             (if length functionCallOutputs > 0
              then \<lparr> cc_content = None,
                     cc_tool_calls = Some (v1_function_tool_calls ''call_'' functionCallOutputs),
                     finish_reason = ''tool_calls'' \<rparr>
              else \<lparr> cc_content =
                       Some (if resp_status response = ''incomplete''
                             then ''[Response incomplete - token limit reached during reasoning]''
                             else ''[No response generated]''),
                     cc_tool_calls = None,
                     finish_reason = (if resp_status response = ''incomplete'' then ''length'' else ''stop'') \<rparr>)
         | Some m \<Rightarrow>
             (let r = \<lparr> cc_content = None, cc_tool_calls = None,
                        finish_reason = (if mo_status m = Some ''completed'' then ''stop'' else ''length'') \<rparr>;
                  r = (case mo_content m of
                         None \<Rightarrow> r
                       | Some parts \<Rightarrow>
                           (if length parts > 0
                            then
                              (let r = (case find_output_text (Some parts) of
                                          None \<Rightarrow> r | Some t \<Rightarrow> r\<lparr> cc_content := Some t \<rparr>);
                                   toolCalls = filter_tool_use parts
                               in if length toolCalls > 0
                                  then r\<lparr> cc_tool_calls :=
                                         Some (map (\<lambda>((i, n, inp), index).
                                                 \<lparr> tc_id = (if i \<noteq> [] then i else ''call_'' @ show_nat index),
                                                   tc_name = n,
                                                   tc_arguments =
                                                     JSON_stringify P (js_or inp (JObj [])) \<rparr>)
                                               (zip toolCalls [0 ..< length toolCalls])) \<rparr>
                                  else r)
                            else r))
              in if length functionCallOutputs > 0
                 then
                   (let additional = v1_function_tool_calls ''call_fc_'' functionCallOutputs;
                        r = r\<lparr> cc_tool_calls :=
                              (case cc_tool_calls r of
                                 None \<Rightarrow> Some additional
                               | Some tcs \<Rightarrow> Some (tcs @ additional)) \<rparr>
                    in if (case cc_tool_calls r of None \<Rightarrow> False | Some tcs \<Rightarrow> length tcs > 0)
                       then r\<lparr> finish_reason := ''tool_calls'' \<rparr>
                       else r)
                 else r))"


section \<open>Streaming responses\<close>

subsection \<open>Reading the body: decoding and line splitting\<close>

text \<open>
  \<open>TextDecoder.decode(value, {stream: true})\<close> on well-formed UTF-8: the bytes of a code
  point that the chunk leaves incomplete are held back and decoded with the next chunk
  (\<open>decode_stream\<close> takes and returns the bytes held back).  The replacement of malformed
  sequences by U+FFFD is not modelled.
\<close>

definition is_cont :: "char \<Rightarrow> bool" where
  \<comment> \<open>a continuation byte, \<open>10xxxxxx\<close>\<close>
  "is_cont c = (128 \<le> byte c \<and> byte c < 192)"

definition utf8_need :: "char \<Rightarrow> nat" where
  \<comment> \<open>the length of the sequence that a lead byte starts\<close>
  "utf8_need c = (if 240 \<le> byte c then 4 else if 224 \<le> byte c then 3
                  else if 192 \<le> byte c then 2 else 1)"

definition incomplete_tail :: "string \<Rightarrow> nat" where
  \<comment> \<open>the number of bytes at the end that start a code point without finishing it\<close>
  "incomplete_tail s =
     (case rev s of
        [] \<Rightarrow> 0
      | b1 # r1 \<Rightarrow>
          (if utf8_need b1 > 1 then 1
           else if is_cont b1
           then (case r1 of
                   [] \<Rightarrow> 0
                 | b2 # r2 \<Rightarrow>
                     (if utf8_need b2 > 2 then 2
                      else if is_cont b2
                      then (case r2 of [] \<Rightarrow> 0 | b3 # r3 \<Rightarrow> if utf8_need b3 > 3 then 3 else 0)
                      else 0))
           else 0))"

definition decode_stream :: "string \<Rightarrow> string \<Rightarrow> string \<times> string" where
  "decode_stream held chunk =
     (let d = held @ chunk; k = incomplete_tail d
      in (take (length d - k) d, drop (length d - k) d))"

fun split_lines :: "string \<Rightarrow> string list" where
  \<comment> \<open>\<open>s.split("\n")\<close>\<close>
  "split_lines [] = [[]]"
| "split_lines (c # cs) =
     (if c = NL then [] # split_lines cs
      else (case split_lines cs of [] \<Rightarrow> [[c]] | l # ls \<Rightarrow> (c # l) # ls))"

definition join_lines :: "string list \<Rightarrow> string" where
  \<comment> \<open>the lines, each followed by a newline\<close>
  "join_lines ls = concat (map (\<lambda>l. l @ [NL]) ls)"

text \<open>
  The four streaming handlers read the body with the same loop: decode the chunk,
  append it to the buffer, split the buffer at the newlines, keep the last piece as the
  new buffer and handle the lines before it in order.  \<open>handle_lines\<close> is the inner
  \<open>for\<close> loop and \<open>read_chunks\<close> the outer \<open>while\<close> loop, for a handler \<open>f\<close> of one line
  that returns the frames it enqueues and the handler's state after the line.
\<close>

fun handle_lines :: "('s \<Rightarrow> string \<Rightarrow> string list \<times> 's) \<Rightarrow> 's \<Rightarrow> string list \<Rightarrow> string list \<times> 's" where
  "handle_lines f st [] = ([], st)"
| "handle_lines f st (line # rest) =
     (let (frames, st') = f st line;
          (frames', st'') = handle_lines f st' rest
      in (frames @ frames', st''))"

fun read_chunks ::
  "('s \<Rightarrow> string \<Rightarrow> string list \<times> 's) \<Rightarrow> string \<times> string \<times> 's \<Rightarrow> string list
     \<Rightarrow> string list \<times> (string \<times> string \<times> 's)" where
  "read_chunks f (held, buffer, st) [] = ([], (held, buffer, st))"
| "read_chunks f (held, buffer, st) (chunk # rest) =
     (let (decoded, held') = decode_stream held chunk;
          lines = split_lines (buffer @ decoded);
          buffer' = last lines;
          (frames, st') = handle_lines f st (butlast lines);
          (frames', final) = read_chunks f (held', buffer', st') rest
      in (frames @ frames', final))"

definition flush_buffer :: "string \<Rightarrow> string list" where
  \<comment> \<open>at the end of the body: \<open>if (buffer.trim()) controller.enqueue(buffer)\<close>\<close>
  "flush_buffer buffer = (if trim buffer \<noteq> [] then [buffer] else [])"

subsection \<open>Refusals and parsed output in a chat completion\<close>

definition first_choice :: "js \<Rightarrow> string \<Rightarrow> string \<Rightarrow> js" where
  \<comment> \<open>\<open>data.choices?.[0]?.part?.field\<close>, for \<open>data\<close> that is not nullish\<close>
  "first_choice data part field =
     js_opt_get (js_opt_get (js_opt_index (js_get data ''choices'') 0) part) field"

definition update_first_choice :: "js \<Rightarrow> string \<Rightarrow> (js \<Rightarrow> js) \<Rightarrow> js" where
  \<comment> \<open>an assignment to a property of \<open>data.choices[0].part\<close>\<close>
  "update_first_choice data part f =
     js_update data ''choices'' (\<lambda>ch. js_update_index0 ch (\<lambda>c0. js_update c0 part f))"

definition refusal_text :: "js \<Rightarrow> js" where
  \<comment> \<open>\<open>`[REFUSAL] ${refusal}`\<close>\<close>
  "refusal_text refusal = JStr (''[REFUSAL] '' @ js_to_string refusal)"




definition rewrite_delta :: "platform \<Rightarrow> js \<Rightarrow> js_error + js" where
  \<comment> \<open>The two steps on a parsed stream line, the same in both transformers.\<close>
  "rewrite_delta P data =
     (if is_nullish data then Inl TypeError
      else
        (let d1 = (if js_truthy (first_choice data ''delta'' ''refusal'')
                   then update_first_choice data ''delta''
                          (\<lambda>d. js_delete
                                  (js_set d ''content''
                                     (refusal_text (first_choice data ''delta'' ''refusal'')))
                                  ''refusal'')
                   else data);
             d2 = (if js_truthy (first_choice d1 ''delta'' ''parsed'')
                   then (if \<not> js_truthy (first_choice d1 ''delta'' ''content'')
                         then update_first_choice d1 ''delta''
                                (\<lambda>d. js_set d ''content''
                                        (JSON_stringify P (first_choice d1 ''delta'' ''parsed'')))
                         else d1)
                   else d1)
         in Inr d2))"

subsection \<open>The unified OpenAI transformer\<close>

definition unified_line :: "platform \<Rightarrow> unit \<Rightarrow> string \<Rightarrow> string list \<times> unit" where
  "unified_line P st line =
     (if trim line = [] \<or> line = ''data: [DONE]'' then ([line @ [NL]], st)
      else if startsWith line ''data: ''
      then (case parse P (drop 6 line) of
              None \<Rightarrow> ([line @ [NL]], st)
            | Some data \<Rightarrow>
                (case rewrite_delta P data of
                   Inl e \<Rightarrow> ([line @ [NL]], st)
                 | Inr d \<Rightarrow> ([''data: '' @ stringify P d @ [NL]], st)))
      else ([line @ [NL]], st))"

definition unified_handleStreamingResponse :: "platform \<Rightarrow> string list \<Rightarrow> string list" where
  "unified_handleStreamingResponse P chunks =
     (let (frames, (held, buffer, st)) = read_chunks (unified_line P) ([], [], ()) chunks
      in frames @ flush_buffer buffer)"

subsection \<open>The response-format transformer\<close>

definition format_line :: "platform \<Rightarrow> unit \<Rightarrow> string \<Rightarrow> string list \<times> unit" where
  "format_line P st line =
     (if trim line = [] then ([], st)
      else if startsWith line ''data: '' \<and> trim line \<noteq> ''data: [DONE]''
      then (case parse P (drop 6 line) of
              None \<Rightarrow> ([line @ [NL]], st)
            | Some data \<Rightarrow>
                (case rewrite_delta P data of
                   Inl e \<Rightarrow> ([line @ [NL]], st)
                 | Inr d \<Rightarrow> ([''data: '' @ stringify P d @ [NL]], st)))
      else ([line @ [NL]], st))"

definition format_handleStreamingResponse :: "platform \<Rightarrow> string list \<Rightarrow> string list" where
  "format_handleStreamingResponse P chunks =
     (let (frames, (held, buffer, st)) = read_chunks (format_line P) ([], [], ()) chunks
      in frames @ flush_buffer buffer)"

subsection \<open>Chunks of a chat completion\<close>

text \<open>
  The chunk objects that the two Responses API transformers build.  \<open>created\<close> is read
  from the clock, \<open>Math.floor(Date.now() / 1000)\<close>; the model takes one reading \<open>now\<close> for
  the whole response.
\<close>

definition chat_chunk :: "js \<Rightarrow> int \<Rightarrow> js \<Rightarrow> js \<Rightarrow> js \<Rightarrow> js" where
  "chat_chunk chunk_id now chunk_model delta fr =
     JObj [(''id'', chunk_id), (''object'', JStr ''chat.completion.chunk''),
           (''created'', JNum now), (''model'', chunk_model),
           (''choices'', JArr [JObj [(''index'', JNum 0), (''delta'', delta),
                                     (''finish_reason'', fr)]])]"

definition chunk_finish_reason :: "js \<Rightarrow> js" where
  \<comment> \<open>\<open>chunk.choices[0].finish_reason\<close>\<close>
  "chunk_finish_reason chunk = js_get (js_index (js_get chunk ''choices'') 0) ''finish_reason''"

subsection \<open>The V2 transformer: processStreamEvent and the handler\<close>

record StreamState =
  currentToolCall :: "(js \<times> js \<times> string) option"
  pendingText :: "js list"
  responseId :: js
  hasContent :: bool
  hadToolCalls :: bool

definition initial_StreamState :: StreamState where
  "initial_StreamState =
     \<lparr> currentToolCall = None, pendingText = [], responseId = JUndefined,
       hasContent = False, hadToolCalls = False \<rparr>"

definition finalFinishReason :: "ResponsesApiV2Options \<Rightarrow> string \<Rightarrow> js \<Rightarrow> StreamState \<Rightarrow> string" where
  "finalFinishReason opts currentModel event_type state =
     (if event_type = JStr ''response.incomplete'' then ''length''
      else if hadToolCalls state \<and> hasContent state then ''stop''
      else if hadToolCalls state \<and> \<not> hasContent state
      then (if alwaysContinueWithTools opts \<or> continuousExecution opts then ''stop''
            else if isReasoningModel currentModel then ''stop''
            else ''tool_calls'')
      else ''stop'')"

definition processStreamEvent ::
  "ResponsesApiV2Options \<Rightarrow> string \<Rightarrow> int \<Rightarrow> js \<Rightarrow> StreamState \<Rightarrow> js_error + (js option \<times> StreamState)" where
  \<comment> \<open>The chunk returned (\<open>None\<close> for \<open>null\<close>) and the state after the event.  The state's
      \<open>contentLength\<close>, which nothing reads, is left out.\<close>
  "processStreamEvent opts currentModel now event state =
     (if is_nullish event then Inl TypeError
      else
        (let t = js_get event ''type'';
             chunk = chat_chunk (js_or (responseId state) (JStr ''stream'')) now (JStr currentModel)
         in if t = JStr ''response.created''
            then Inr (None, state\<lparr> responseId := js_get event ''response_id'' \<rparr>)
            else if t = JStr ''response.output_item.added''
            then (if js_opt_get (js_get event ''item'') ''type'' = JStr ''message''
                  then Inr (Some (chunk (JObj [(''role'', JStr ''assistant'')]) JNull), state)
                  else if js_opt_get (js_get event ''item'') ''type'' = JStr ''function_call''
                  then
                    (let item = js_get event ''item'' in
                     Inr (Some (chunk
                                  (JObj [(''tool_calls'',
                                     JArr [JObj [(''index'', JNum 0),
                                                 (''id'', js_get item ''call_id''),
                                                 (''type'', JStr ''function''),
                                                 (''function'',
                                                    JObj [(''name'', js_get item ''name''),
                                                          (''arguments'', JStr [])])]])])
                                  JNull),
                          state\<lparr> hadToolCalls := True,
                                 currentToolCall :=
                                   Some (js_get item ''call_id'', js_get item ''name'', []) \<rparr>))
                  else Inr (None, state))
            else if t = JStr ''response.output_text.delta'' \<or> t = JStr ''response.text.delta''
            then (if js_truthy (js_get event ''delta'')
                  then Inr (Some (chunk (JObj [(''content'', js_get event ''delta'')]) JNull),
                            state\<lparr> hasContent := True,
                                   pendingText := pendingText state @ [js_get event ''delta''] \<rparr>)
                  else Inr (None, state))
            else if t = JStr ''response.function_call.delta''
            then (case currentToolCall state of
                    Some (cid, cname, args) \<Rightarrow>
                      (if js_truthy (js_get event ''delta'')
                       then
                         (let a = js_get (js_get event ''delta'') ''arguments'' in
                          Inr (Some (chunk
                                       (JObj [(''tool_calls'',
                                          JArr [JObj [(''index'', JNum 0),
                                                      (''function'', JObj [(''arguments'', a)])]])])
                                       JNull),
                               state\<lparr> currentToolCall :=
                                        Some (cid, cname,
                                              args @ js_to_string (js_or a (JStr []))) \<rparr>))
                       else Inr (None, state))
                  | None \<Rightarrow> Inr (None, state))
            else if t = JStr ''response.function_call.done''
            then (case currentToolCall state of
                    Some tc \<Rightarrow> Inr (Some (chunk (JObj []) JNull), state\<lparr> currentToolCall := None \<rparr>)
                  | None \<Rightarrow> Inr (None, state))
            else if t = JStr ''response.output_item.done''
            then Inr (Some (chunk (JObj []) JNull), state)
            else if t = JStr ''response.completed'' \<or> t = JStr ''response.incomplete''
            then Inr (Some (chunk (JObj [])
                              (JStr (finalFinishReason opts currentModel t state))), state)
            else Inr (None, state)))"

definition V2_line ::
  "ResponsesApiV2Options \<Rightarrow> string \<Rightarrow> int \<Rightarrow> platform \<Rightarrow> StreamState \<Rightarrow> string
     \<Rightarrow> string list \<times> StreamState" where
  "V2_line opts currentModel now P state line =
     (if trim line = [] \<or> line = ''data: [DONE]''
      then (if line = ''data: [DONE]'' then ([''data: [DONE]'' @ [NL, NL]], state) else ([], state))
      else if startsWith line ''data: ''
      then (case parse P (drop 6 line) of
              None \<Rightarrow> ([], state)
            | Some data \<Rightarrow>
                (case processStreamEvent opts currentModel now data state of
                   Inl e \<Rightarrow> ([], state)
                 | Inr (None, state') \<Rightarrow> ([], state')
                 | Inr (Some transformed, state') \<Rightarrow>
                     ([''data: '' @ stringify P transformed @ [NL, NL]], state')))
      else ([], state))"

definition V2_handleStreamingResponse ::
  "ResponsesApiV2Options \<Rightarrow> string \<Rightarrow> int \<Rightarrow> platform \<Rightarrow> string list \<Rightarrow> string list" where
  \<comment> \<open>At the end of the body the handler closes the stream; what is left in the buffer is
      not handled.\<close>
  "V2_handleStreamingResponse opts currentModel now P chunks =
     fst (read_chunks (V2_line opts currentModel now P) ([], [], initial_StreamState) chunks)"

subsection \<open>The first Responses API transformer: the handler\<close>

record v1_StreamState =
  v1_responseId :: js
  v1_hasContent :: bool

definition v1_event ::
  "js \<Rightarrow> int \<Rightarrow> platform \<Rightarrow> js \<Rightarrow> v1_StreamState \<Rightarrow> js_error + (string list \<times> v1_StreamState)" where
  \<comment> \<open>The body of the \<open>try\<close>, after \<open>JSON.parse\<close>; the first argument is
      \<open>this.currentModel\<close>.\<close>
  "v1_event currentModel now P data state =
     (if is_nullish data then Inl TypeError
      else
        (let t = js_get data ''type'';
             frame = (\<lambda>chunk. ''data: '' @ stringify P chunk @ [NL, NL]);
             m = js_or currentModel (JStr ''o3-mini'')
         in if t = JStr ''response.output_item.added'' \<and>
               js_opt_get (js_get data ''item'') ''type'' = JStr ''message''
            then Inr ([frame (chat_chunk (js_get (js_get data ''item'') ''id'') now m
                                (JObj [(''role'', js_or (js_get (js_get data ''item'') ''role'')
                                                        (JStr ''assistant''))])
                                JNull)],
                      state\<lparr> v1_hasContent := True \<rparr>)
            else if (t = JStr ''response.text.delta'' \<or> t = JStr ''response.output_text.delta'') \<and>
                    js_truthy (js_get data ''delta'')
            then Inr ([frame (chat_chunk (js_or (v1_responseId state) (JStr ''chunk'')) now m
                                (JObj [(''content'', js_get data ''delta'')]) JNull)],
                      state\<lparr> v1_hasContent := True \<rparr>)
            else if t = JStr ''response.output_item.done'' \<and>
                    js_opt_get (js_get data ''item'') ''type'' = JStr ''message''
            then Inr ([frame (chat_chunk (js_or (v1_responseId state) (JStr ''chunk'')) now m
                                (JObj []) (JStr ''stop''))],
                      state)
            else if t = JStr ''response.incomplete'' \<or> t = JStr ''response.completed''
            then
              (let finalResponse = js_get data ''response'' in
               Inr ((if js_opt_get finalResponse ''status'' = JStr ''incomplete'' \<and>
                        \<not> v1_hasContent state
                     then [frame (chat_chunk (js_get finalResponse ''id'') now
                                    (js_get finalResponse ''model'')
                                    (JObj [(''content'',
                                            JStr ''[Response incomplete - token limit reached]'')])
                                    (JStr ''length''))]
                     else [])
                    @ [''data: [DONE]'' @ [NL, NL]],
                    state))
            else if js_truthy (js_get data ''response_id'') \<and> \<not> js_truthy (v1_responseId state)
            then Inr ([], state\<lparr> v1_responseId := js_get data ''response_id'' \<rparr>)
            else Inr ([], state)))"

definition v1_line :: "js \<Rightarrow> int \<Rightarrow> platform \<Rightarrow> v1_StreamState \<Rightarrow> string \<Rightarrow> string list \<times> v1_StreamState" where
  "v1_line currentModel now P state line =
     (if trim line = [] then ([], state)
      else if startsWith line ''data: '' \<and> trim line \<noteq> ''data: [DONE]''
      then (case parse P (drop 6 line) of
              None \<Rightarrow> ([], state)
            | Some data \<Rightarrow>
                (case v1_event currentModel now P data state of
                   Inl e \<Rightarrow> ([], state)
                 | Inr r \<Rightarrow> r))
      else if line = ''data: [DONE]'' then ([line @ [NL, NL]], state)
      else ([], state))"

definition v1_handleStreamingResponse :: "js \<Rightarrow> int \<Rightarrow> platform \<Rightarrow> string list \<Rightarrow> string list" where
  "v1_handleStreamingResponse currentModel now P chunks =
     (let (frames, (held, buffer, st)) =
            read_chunks (v1_line currentModel now P) ([], [],
              \<lparr> v1_responseId = JNull, v1_hasContent = False \<rparr>) chunks
      in frames @ flush_buffer buffer)"


subsection \<open>Predicates on messages and tags\<close>









section \<open>Request transformers on shared objects\<close>

text \<open>
  \<open>MaxTokenTransformer\<close> and \<open>O3Transformer\<close> receive a reference to the caller's request
  object.  What they do to the caller's objects depends on which objects are shared, so
  the objects live in a store and are named by their addresses: the request objects, the
  message objects and the content block objects.  The arrays (\<open>messages\<close>, and a
  \<open>content\<close> that is an array) are never assigned to by the two transformers; an array
  is the list of the addresses of its elements, and a copied request holds the same list.
  Every address in a store is the address of an allocated object.
\<close>

type_synonym addr = nat

datatype message_content =
    ContentString string
  | ContentArray "addr list"
  | ContentOther js

record block_obj =
  b_type :: js
  b_text :: js
  b_other :: "(string \<times> js) list"

record message_obj =
  m_role :: js
  m_content :: message_content
  m_other :: "(string \<times> js) list"

record request_obj =
  rq_model :: string
  rq_messages :: "addr list"
  rq_max_tokens :: "int option"
  rq_max_completion_tokens :: "int option"
  rq_prediction :: js
  rq_response_format :: js
  rq_params :: "(string \<times> js) list"

record store =
  request_objs :: "request_obj list"
  message_objs :: "message_obj list"
  block_objs :: "block_obj list"

subsection \<open>MaxTokenTransformer\<close>

definition MaxToken_constructor :: "int option \<Rightarrow> int option \<Rightarrow> int option" where
  \<comment> \<open>\<open>this.options?.max_tokens || this.options?.maxTokens\<close>\<close>
  "MaxToken_constructor opt_max_tokens opt_maxTokens =
     (if num_truthy opt_max_tokens then opt_max_tokens else opt_maxTokens)"

definition limit_tokens :: "int \<Rightarrow> int option \<Rightarrow> int option" where
  \<comment> \<open>\<open>if (v) v = Math.min(v, limit)\<close>\<close>
  "limit_tokens limit v =
     (case v of None \<Rightarrow> None | Some n \<Rightarrow> if n \<noteq> 0 then Some (min n limit) else Some n)"

definition MaxToken_transformRequestIn :: "int option \<Rightarrow> store \<Rightarrow> addr \<Rightarrow> store \<times> addr" where
  \<comment> \<open>The first argument is \<open>this.max_tokens\<close>; the result is the store after the call and
      the address of the returned object.\<close>
  "MaxToken_transformRequestIn this_max_tokens h request =
     (if num_truthy this_max_tokens
      then
        (let limit = the this_max_tokens;
             r = request_objs h ! request;
             r1 = r\<lparr> rq_max_tokens := limit_tokens limit (rq_max_tokens r) \<rparr>;
             r2 = r1\<lparr> rq_max_completion_tokens :=
                        limit_tokens limit (rq_max_completion_tokens r1) \<rparr>
         in (h\<lparr> request_objs := (request_objs h)[request := r2] \<rparr>, request))
      else (h, request))"

subsection \<open>O3Transformer\<close>

definition O3_MODELS :: "string list" where
  "O3_MODELS = [''o3'', ''o3-pro'', ''o4-mini'', ''o3-mini'', ''o3-mini-2025-01-31'']"

definition isO3Model :: "string \<Rightarrow> bool" where
  "isO3Model m = list_ex (\<lambda>o3Model. includes_str m o3Model) O3_MODELS"

definition is_word_char :: "char \<Rightarrow> bool" where
  \<comment> \<open>the class \<open>\w\<close>\<close>
  "is_word_char c =
     (let n = byte c in
        (48 \<le> n \<and> n \<le> 57) \<or> (65 \<le> n \<and> n \<le> 90) \<or> (97 \<le> n \<and> n \<le> 122) \<or> n = 95)"

fun json_word_from :: "bool \<Rightarrow> string \<Rightarrow> bool" where
  \<comment> \<open>the first argument: the character before the position is a word character\<close>
  "json_word_from prev [] = False"
| "json_word_from prev (c # cs) =
     ((\<not> prev \<and> toLowerCase (take 4 (c # cs)) = ''json'' \<and>
       (case drop 4 (c # cs) of [] \<Rightarrow> True | d # _ \<Rightarrow> \<not> is_word_char d))
      \<or> json_word_from (is_word_char c) cs)"

definition has_json_word :: "string \<Rightarrow> bool" where
  \<comment> \<open>\<open>/\bjson\b/i.test(content)\<close>\<close>
  "has_json_word s = json_word_from False s"

definition message_text :: "store \<Rightarrow> message_obj \<Rightarrow> js_error + string" where
  \<comment> \<open>\<open>typeof msg.content === 'string' ? msg.content
        : msg.content?.map((c) => c.text || '').join(' ') || ''\<close>; a content that is neither
      a string, an array nor nullish has no \<open>map\<close>.\<close>
  "message_text h msg =
     (case m_content msg of
        ContentString s \<Rightarrow> Inr s
      | ContentArray cs \<Rightarrow>
          Inr (js_join '' '' (map (\<lambda>c. js_or (b_text (block_objs h ! c)) (JStr [])) cs))
      | ContentOther v \<Rightarrow> if is_nullish v then Inr [] else Inl TypeError)"

fun hasJsonKeyword :: "store \<Rightarrow> addr list \<Rightarrow> js_error + bool" where
  \<comment> \<open>\<open>request.messages.some(...)\<close>\<close>
  "hasJsonKeyword h [] = Inr False"
| "hasJsonKeyword h (m # ms) =
     (case message_text h (message_objs h ! m) of
        Inl e \<Rightarrow> Inl e
      | Inr txt \<Rightarrow> if has_json_word txt then Inr True else hasJsonKeyword h ms)"

fun findLastIndex :: "('a \<Rightarrow> bool) \<Rightarrow> 'a list \<Rightarrow> nat option" where
  "findLastIndex p [] = None"
| "findLastIndex p (x # xs) =
     (case findLastIndex p xs of
        Some i \<Rightarrow> Some (Suc i)
      | None \<Rightarrow> if p x then Some 0 else None)"

definition findLast :: "('a \<Rightarrow> bool) \<Rightarrow> 'a list \<Rightarrow> 'a option" where
  "findLast p xs = map_option (\<lambda>i. xs ! i) (findLastIndex p xs)"

definition json_suffix :: string where
  "json_suffix = [NL, NL] @ ''Please respond in JSON format.''"

definition addJsonKeyword :: "store \<Rightarrow> addr list \<Rightarrow> store" where
  \<comment> \<open>the body of \<open>if (!hasJsonKeyword)\<close>\<close>
  "addJsonKeyword h msgs =
     (case findLastIndex (\<lambda>m. m_role (message_objs h ! m) = JStr ''user'') msgs of
        None \<Rightarrow> h
      | Some lastUserMsgIndex \<Rightarrow>
          (let a = msgs ! lastUserMsgIndex; msg = message_objs h ! a in
           case m_content msg of
             ContentString s \<Rightarrow>
               h\<lparr> message_objs :=
                    (message_objs h)[a := msg\<lparr> m_content := ContentString (s @ json_suffix) \<rparr>] \<rparr>
           | ContentArray cs \<Rightarrow>
               (case findLast (\<lambda>c. b_type (block_objs h ! c) = JStr ''text'') cs of
                  None \<Rightarrow> h
                | Some lastText \<Rightarrow>
                    (let blk = block_objs h ! lastText in
                     h\<lparr> block_objs :=
                          (block_objs h)[lastText :=
                             blk\<lparr> b_text := JStr (js_to_string (b_text blk) @ json_suffix) \<rparr>] \<rparr>))
           | ContentOther v \<Rightarrow> h))"

definition ensureJsonKeyword :: "store \<Rightarrow> addr list \<Rightarrow> js_error + store" where
  \<comment> \<open>The second argument is \<open>request.messages\<close>, the only property the method reads.\<close>
  "ensureJsonKeyword h msgs =
     (case hasJsonKeyword h msgs of
        Inl e \<Rightarrow> Inl e
      | Inr found \<Rightarrow> Inr (if found then h else addJsonKeyword h msgs))"

definition unsupportedParams :: "string list" where
  "unsupportedParams =
     [''presence_penalty'', ''frequency_penalty'', ''logit_bias'', ''logprobs'',
      ''top_logprobs'', ''n'']"

definition O3_transformRequestIn :: "store \<Rightarrow> addr \<Rightarrow> js_error + (store \<times> addr)" where
  \<comment> \<open>\<open>o3Request\<close> is a new object; it is allocated at the next free address.  Until the
      method returns nothing else holds its address, so the model builds it first and
      stores it at the end.\<close>
  "O3_transformRequestIn h request =
     (let r = request_objs h ! request in
      if \<not> isO3Model (rq_model r) then Inr (h, request)
      else
        (let c0 = r;
             c1 = (if num_truthy (rq_max_tokens c0)
                   then c0\<lparr> rq_max_completion_tokens := rq_max_tokens c0, rq_max_tokens := None \<rparr>
                   else c0);
             c2 = (if js_truthy (rq_prediction c1) then c1\<lparr> rq_prediction := JUndefined \<rparr> else c1);
             rf = rq_response_format c2;
             json_mode = (js_truthy rf \<and>
                          (js_get rf ''type'' = JStr ''json_object'' \<or>
                           js_get rf ''type'' = JStr ''json_schema''));
             c3 = c2\<lparr> rq_params :=
                       filter (\<lambda>kv. \<not> (fst kv \<in> set unsupportedParams \<and> snd kv \<noteq> JUndefined))
                         (rq_params c2) \<rparr>
         in case (if json_mode then ensureJsonKeyword h (rq_messages c2) else Inr h) of
              Inl e \<Rightarrow> Inl e
            | Inr h1 \<Rightarrow>
                Inr (h1\<lparr> request_objs := request_objs h1 @ [c3] \<rparr>, length (request_objs h1))))"

text \<open>Example stores.\<close>

definition example_request :: request_obj where
  "example_request =
     \<lparr> rq_model = ''o3-mini'', rq_messages = [0], rq_max_tokens = Some 5000,
       rq_max_completion_tokens = None, rq_prediction = JUndefined,
       rq_response_format = JObj [(''type'', JStr ''json_object'')],
       rq_params = [(''temperature'', JNum 1), (''n'', JNum 1)] \<rparr>"

definition example_store :: store where
  "example_store =
     \<lparr> request_objs = [example_request],
       message_objs = [\<lparr> m_role = JStr ''user'', m_content = ContentString ''hi'', m_other = [] \<rparr>],
       block_objs = [] \<rparr>"


chapter \<open>Properties\<close>

section \<open>Token budget\<close>

lemma modelMax_ge: "16384 \<le> modelMax m"
  by (simp add: modelMax_def MODEL_TOKEN_LIMITS_def num_or_def)

lemma total_closed:
  "total (calculateOptimalTokens opts r) =
     min (modelMax (toLowerCase (model r))) (uncapped opts r)"
  by (simp add: calculateOptimalTokens_def uncapped_def Let_def)

lemma modelMinimums_ge: "t \<le> modelMinimums m t"
  by (simp add: modelMinimums_def)

lemma overheads_nonneg:
  "0 \<le> toolOverheadOf r" "0 \<le> reasoningOverheadOf m" "0 \<le> historyOverheadOf r"
  by (simp_all add: toolOverheadOf_def toolCount_def reasoningOverheadOf_def historyOverheadOf_def
        Let_def split: option.splits)

lemma total_ge_floor:
  assumes "hasTools r"
  shows "min (minTokensForTools opts) (modelMax (toLowerCase (model r)))
           \<le> total (calculateOptimalTokens opts r)"
proof -
  have "minTokensForTools opts \<le> uncapped opts r"
    unfolding uncapped_def using assms
    by (intro order_trans[OF _ modelMinimums_ge]) (simp add: applyMinimums_def)
  then show ?thesis by (simp add: total_closed)
qed

















text \<open>
  Claim C7, as the code has it.  For a request on a reasoning-capable model with two
  tool specifications and a requested limit of 100, the computed total is at least the
  smaller of the \<open>minTokensForTools\<close> option and the model's maximum (the cap is applied
  after the minimums), it is more than the raw 100, and with the default options it is
  at least 15000.
\<close>

theorem tools_floor_on_reasoning_model:
  assumes "isReasoningModel (model r)" and "tools r = Some [t1, t2]" and "max_tokens r = Some 100"
  shows "min (minTokensForTools opts) (modelMax (toLowerCase (model r)))
           \<le> total (calculateOptimalTokens opts r)
         \<and> 100 < total (calculateOptimalTokens opts r)
         \<and> 15000 \<le> total (calculateOptimalTokens (constructor_v2 None) r)"
proof -
  let ?m = "toLowerCase (model r)"
  have ht: "hasTools r" using assms(2) by (simp add: hasTools_def)
  have a: "min (minTokensForTools opts) (modelMax ?m) \<le> total (calculateOptimalTokens opts r)"
    by (rule total_ge_floor[OF ht])
  have "100 + 9000 + reasoningOverheadOf ?m + historyOverheadOf r
          \<le> applyMinimums opts r (100 + 9000 + reasoningOverheadOf ?m + historyOverheadOf r)"
    by (simp add: applyMinimums_def)
  also have "\<dots> \<le> uncapped opts r"
    using assms(2,3) ht
    by (simp add: uncapped_def toolOverheadOf_def toolCount_def num_or_def modelMinimums_ge)
  finally have "9100 \<le> uncapped opts r"
    using overheads_nonneg(2)[of ?m] overheads_nonneg(3)[of r] by linarith
  then have b: "100 < total (calculateOptimalTokens opts r)"
    using modelMax_ge[of ?m] by (simp add: total_closed)
  have "min (minTokensForTools (constructor_v2 None)) (modelMax ?m)
          \<le> total (calculateOptimalTokens (constructor_v2 None) r)"
    by (rule total_ge_floor[OF ht])
  then have c: "15000 \<le> total (calculateOptimalTokens (constructor_v2 None) r)"
    using modelMax_ge[of ?m] by (simp add: constructor_v2_def default_options_def)
  from a b c show ?thesis by simp
qed

theorem tools_floor_on_reasoning_model_witness:
  "isReasoningModel ''o4-mini''
   \<and> total (calculateOptimalTokens (constructor_v2 None)
         \<lparr> model = ''o4-mini'', messages = [], max_tokens = Some 100,
           max_completion_tokens = None, tools = Some [JNull, JNull] \<rparr>) = 25000
   \<and> min (minTokensForTools (constructor_v2 None)) (modelMax (toLowerCase ''o4-mini''))
         \<le> total (calculateOptimalTokens (constructor_v2 None)
         \<lparr> model = ''o4-mini'', messages = [], max_tokens = Some 100,
           max_completion_tokens = None, tools = Some [JNull, JNull] \<rparr>)"
proof -
  let ?r = "\<lparr> model = ''o4-mini'', messages = [], max_tokens = Some 100,
              max_completion_tokens = None, tools = Some [JNull, JNull] \<rparr>"
  have h1: "isReasoningModel (model ?r)" by code_simp
  have h2: "tools ?r = Some [JNull, JNull]" by simp
  have h3: "max_tokens ?r = Some 100" by simp
  have v: "total (calculateOptimalTokens (constructor_v2 None) ?r) = 25000" by code_simp
  from tools_floor_on_reasoning_model[OF h1 h2 h3, of "constructor_v2 None"]
  have "min (minTokensForTools (constructor_v2 None)) (modelMax (toLowerCase (model ?r)))
          \<le> total (calculateOptimalTokens (constructor_v2 None) ?r)"
    by (rule conjunct1)
  with h1 v show ?thesis by simp
qed

text \<open>
  Claim C7 as the specification states it fails when the configured floor is above the
  model's maximum: with \<open>minTokensForTools = 20000\<close> on \<open>o3-mini\<close> (maximum 16384) the
  computed total is 16384.
\<close>

theorem tools_floor_capped_by_model_maximum:
  "isReasoningModel ''o3-mini''
   \<and> minTokensForTools (constructor_v2 (Some \<lparr> opt_minTokensForTools = Some 20000,
         opt_fallbackEnabled = None, opt_continuousExecution = None,
         opt_alwaysContinueWithTools = None \<rparr>)) = 20000
   \<and> total (calculateOptimalTokens
         (constructor_v2 (Some \<lparr> opt_minTokensForTools = Some 20000,
            opt_fallbackEnabled = None, opt_continuousExecution = None,
            opt_alwaysContinueWithTools = None \<rparr>))
         \<lparr> model = ''o3-mini'', messages = [], max_tokens = Some 100,
           max_completion_tokens = None, tools = Some [JNull, JNull] \<rparr>) = 16384"
  by code_simp

section \<open>Message encoding: the role-based content type\<close>















section \<open>Message encoding: the sanitising pass of the second revision\<close>












section \<open>Finish reason\<close>

lemma shouldContinue_function_calls:
  assumes "resp_output r = Some items" and "length (filter_function_calls items) > 0"
  shows "shouldContinue cm r hc"
  using assms by (simp add: shouldContinue_def)

lemma finishReasonForTools_cont:
  "n > 0 \<Longrightarrow> finishReasonForTools opts inc hc True n = (if inc then ''length'' else ''stop'')"
  by (simp add: finishReasonForTools_def)

lemma V2_finish_reason:
  "finish_reason (transformResponseToOpenAI opts cm P r) =
     (if resp_status r = ''incomplete'' then ''length'' else ''stop'')"
proof (cases "resp_output r")
  case None
  then show ?thesis
    by (simp add: transformResponseToOpenAI_def Let_def find_message_def split: option.splits)
next
  case (Some items)
  show ?thesis
  proof (cases "length (filter_function_calls items) > 0")
    case True
    then have sc: "shouldContinue cm r hc" for hc
      using shouldContinue_function_calls[OF Some] by simp
    show ?thesis
      using Some True
      by (simp add: transformResponseToOpenAI_def Let_def sc finishReasonForTools_cont
            split: option.splits)
  next
    case False
    then show ?thesis
      using Some
      by (simp add: transformResponseToOpenAI_def Let_def split: option.splits)
  qed
qed

lemma finalFinishReason_incomplete:
  "finalFinishReason opts cm (JStr ''response.incomplete'') st = ''length''"
  by (simp add: finalFinishReason_def)

lemma finalFinishReason_completed:
  "(finalFinishReason opts cm (JStr ''response.completed'') st = ''tool_calls'' \<longrightarrow>
      \<not> alwaysContinueWithTools opts \<and> \<not> continuousExecution opts \<and>
      hadToolCalls st \<and> \<not> hasContent st)
   \<and> (finalFinishReason opts cm (JStr ''response.completed'') st = ''stop'' \<or>
       finalFinishReason opts cm (JStr ''response.completed'') st = ''tool_calls'')
   \<and> finalFinishReason (constructor_v2 None) cm (JStr ''response.completed'') st = ''stop''"
  by (simp add: finalFinishReason_def constructor_v2_def default_options_def)

lemma processStreamEvent_final:
  assumes "js_get event ''type'' = JStr t" and "t = ''response.completed'' \<or> t = ''response.incomplete''"
  shows "processStreamEvent opts cm now event st =
           Inr (Some (chat_chunk (js_or (responseId st) (JStr ''stream'')) now (JStr cm) (JObj [])
                        (JStr (finalFinishReason opts cm (JStr t) st))), st)"
proof -
  have "\<not> is_nullish event"
    using assms(1) by (auto simp: is_nullish_def js_get_def)
  then show ?thesis
    using assms by (auto simp: processStreamEvent_def Let_def)
qed

lemma chunk_finish_reason_chat_chunk: "chunk_finish_reason (chat_chunk i n m d fr) = fr"
  by (simp add: chunk_finish_reason_def chat_chunk_def js_get_def js_index_def)

text \<open>
  Claim C2.  For a response that is not truncated, the finish reason that V2 reports is
  \<open>tool_calls\<close> only when \<open>alwaysContinueWithTools\<close> and \<open>continuousExecution\<close> are both
  disabled, and under the default options it is \<open>stop\<close>, whatever tool calls and text the
  response holds; this holds for \<open>transformResponseToOpenAI\<close> and for the chunk that
  \<open>processStreamEvent\<close> returns on \<open>response.completed\<close>.  (In the non-streaming path
  the finish reason of such a response is \<open>stop\<close> under every configuration, since
  \<open>shouldContinue\<close> holds whenever there are function calls.)
\<close>

theorem finish_reason_for_tool_calls:
  assumes "resp_status response \<noteq> ''incomplete''"
    and "js_get event ''type'' = JStr ''response.completed''"
  shows "(finish_reason (transformResponseToOpenAI opts cm P response) = ''tool_calls'' \<longrightarrow>
            \<not> alwaysContinueWithTools opts \<and> \<not> continuousExecution opts)
         \<and> finish_reason (transformResponseToOpenAI (constructor_v2 None) cm P response) = ''stop''
         \<and> finish_reason (transformResponseToOpenAI opts cm P response) = ''stop''
         \<and> (\<exists>chunk. processStreamEvent opts cm now event st = Inr (Some chunk, st) \<and>
               (chunk_finish_reason chunk = JStr ''tool_calls'' \<longrightarrow>
                  \<not> alwaysContinueWithTools opts \<and> \<not> continuousExecution opts))
         \<and> (\<exists>chunk. processStreamEvent (constructor_v2 None) cm now event st = Inr (Some chunk, st) \<and>
               chunk_finish_reason chunk = JStr ''stop'')"
proof -
  have a: "finish_reason (transformResponseToOpenAI o' cm P response) = ''stop''" for o'
    using assms(1) by (simp add: V2_finish_reason)
  have b: "processStreamEvent o' cm now event st =
             Inr (Some (chat_chunk (js_or (responseId st) (JStr ''stream'')) now (JStr cm) (JObj [])
                          (JStr (finalFinishReason o' cm (JStr ''response.completed'') st))), st)" for o'
    using processStreamEvent_final[OF assms(2), of o' cm now st] by simp
  show ?thesis
    using a b finalFinishReason_completed[of opts cm st]
    by (simp add: chunk_finish_reason_chat_chunk)
qed

theorem finish_reason_for_tool_calls_witness:
  "finish_reason (transformResponseToOpenAI (constructor_v2 None) ''gpt-4o'' example_platform
      \<lparr> resp_id = ''r1'', resp_model = ''gpt-4o'', resp_status = ''completed'',
        resp_output = Some [FunctionCall \<lparr> fc_id = ''f1'', fc_name = ''get_weather'',
                                          fc_arguments = ''{}'', fc_call_id = ''c1'',
                                          fc_status = ''completed'' \<rparr>] \<rparr>) = ''stop''
   \<and> cc_tool_calls (transformResponseToOpenAI (constructor_v2 None) ''gpt-4o'' example_platform
      \<lparr> resp_id = ''r1'', resp_model = ''gpt-4o'', resp_status = ''completed'',
        resp_output = Some [FunctionCall \<lparr> fc_id = ''f1'', fc_name = ''get_weather'',
                                          fc_arguments = ''{}'', fc_call_id = ''c1'',
                                          fc_status = ''completed'' \<rparr>] \<rparr>)
       = Some [\<lparr> tc_id = ''c1'', tc_name = ''get_weather'', tc_arguments = JStr ''{}'' \<rparr>]
   \<and> processStreamEvent
       \<lparr> minTokensForTools = 15000, fallbackEnabled = False, continuousExecution = False,
         alwaysContinueWithTools = False \<rparr>
       ''gpt-4o'' 0 (JObj [(''type'', JStr ''response.completed'')])
       (initial_StreamState\<lparr> hadToolCalls := True \<rparr>)
     = Inr (Some (chat_chunk (JStr ''stream'') 0 (JStr ''gpt-4o'') (JObj []) (JStr ''tool_calls'')),
            initial_StreamState\<lparr> hadToolCalls := True \<rparr>)
   \<and> processStreamEvent (constructor_v2 None)
       ''gpt-4o'' 0 (JObj [(''type'', JStr ''response.completed'')])
       (initial_StreamState\<lparr> hadToolCalls := True \<rparr>)
     = Inr (Some (chat_chunk (JStr ''stream'') 0 (JStr ''gpt-4o'') (JObj []) (JStr ''stop'')),
            initial_StreamState\<lparr> hadToolCalls := True \<rparr>)"
proof -
  let ?r = "\<lparr> resp_id = ''r1'', resp_model = ''gpt-4o'', resp_status = ''completed'',
              resp_output = Some [FunctionCall \<lparr> fc_id = ''f1'', fc_name = ''get_weather'',
                                                fc_arguments = ''{}'', fc_call_id = ''c1'',
                                                fc_status = ''completed'' \<rparr>] \<rparr>"
  let ?e = "JObj [(''type'', JStr ''response.completed'')]"
  have h1: "resp_status ?r \<noteq> ''incomplete''" by simp
  have h2: "js_get ?e ''type'' = JStr ''response.completed''" by code_simp
  have s: "finish_reason (transformResponseToOpenAI (constructor_v2 None) ''gpt-4o'' example_platform ?r)
             = ''stop''"
    using finish_reason_for_tool_calls[OF h1 h2] by blast
  have t: "cc_tool_calls (transformResponseToOpenAI (constructor_v2 None) ''gpt-4o'' example_platform ?r)
       = Some [\<lparr> tc_id = ''c1'', tc_name = ''get_weather'', tc_arguments = JStr ''{}'' \<rparr>]"
    by code_simp
  have p: "processStreamEvent
       \<lparr> minTokensForTools = 15000, fallbackEnabled = False, continuousExecution = False,
         alwaysContinueWithTools = False \<rparr>
       ''gpt-4o'' 0 ?e (initial_StreamState\<lparr> hadToolCalls := True \<rparr>)
     = Inr (Some (chat_chunk (JStr ''stream'') 0 (JStr ''gpt-4o'') (JObj []) (JStr ''tool_calls'')),
            initial_StreamState\<lparr> hadToolCalls := True \<rparr>)"
    by code_simp
  have q: "processStreamEvent (constructor_v2 None)
       ''gpt-4o'' 0 ?e (initial_StreamState\<lparr> hadToolCalls := True \<rparr>)
     = Inr (Some (chat_chunk (JStr ''stream'') 0 (JStr ''gpt-4o'') (JObj []) (JStr ''stop'')),
            initial_StreamState\<lparr> hadToolCalls := True \<rparr>)"
    by code_simp
  from s t p q show ?thesis by blast
qed

text \<open>
  Claim C3 on the code.  V2 reports \<open>length\<close> for every truncated response, in both
  paths (\<open>V2_finish_reason\<close>, \<open>finalFinishReason_incomplete\<close>).  The first transformer's
  \<open>transformToOpenAIFormat\<close> returns early with \<open>tool_calls\<close> for a truncated response
  whose output holds a function call and no message.
\<close>

theorem v1_truncated_response_with_function_call:
  "finish_reason (v1_transformToOpenAIFormat example_platform
      \<lparr> resp_id = ''r1'', resp_model = ''o3'', resp_status = ''incomplete'',
        resp_output = Some [FunctionCall \<lparr> fc_id = ''f1'', fc_name = ''get_weather'',
                                          fc_arguments = ''{}'', fc_call_id = ''c1'',
                                          fc_status = ''completed'' \<rparr>] \<rparr>) = ''tool_calls''
   \<and> finish_reason (transformResponseToOpenAI default_options ''o3'' example_platform
      \<lparr> resp_id = ''r1'', resp_model = ''o3'', resp_status = ''incomplete'',
        resp_output = Some [FunctionCall \<lparr> fc_id = ''f1'', fc_name = ''get_weather'',
                                          fc_arguments = ''{}'', fc_call_id = ''c1'',
                                          fc_status = ''completed'' \<rparr>] \<rparr>) = ''length''"
  by code_simp

section \<open>Streaming: reading the body in chunks\<close>

lemma split_lines_nonempty: "split_lines s \<noteq> []"
  by (induction s) (auto split: list.splits)

lemma split_lines_no_nl: "NL \<notin> set r \<Longrightarrow> split_lines r = [r]"
  by (induction r) auto

lemma split_lines_line: "NL \<notin> set l \<Longrightarrow> split_lines (l @ NL # x) = l # split_lines x"
  by (induction l) auto

lemma split_lines_join:
  assumes "\<forall>l \<in> set ls. NL \<notin> set l"
  shows "split_lines (join_lines ls @ x) = ls @ split_lines x"
  using assms
  by (induction ls) (simp_all add: join_lines_def split_lines_line)

lemma split_lines_decompose:
  "s = join_lines (butlast (split_lines s)) @ last (split_lines s)
   \<and> (\<forall>l \<in> set (split_lines s). NL \<notin> set l)"
proof (induction s)
  case Nil
  then show ?case by (simp add: join_lines_def)
next
  case (Cons c cs)
  obtain l ls where sp: "split_lines cs = l # ls"
    using split_lines_nonempty[of cs] by (cases "split_lines cs") auto
  show ?case
  proof (cases "c = NL")
    case True
    then show ?thesis
      using Cons sp by (simp add: join_lines_def)
  next
    case False
    then show ?thesis
      using Cons sp by (cases ls) (auto simp: join_lines_def)
  qed
qed

lemma split_lines_append:
  "split_lines (a @ b) = butlast (split_lines a) @ split_lines (last (split_lines a) @ b)"
proof -
  let ?ls = "butlast (split_lines a)"
  let ?r = "last (split_lines a)"
  have d: "a = join_lines ?ls @ ?r" and n: "\<forall>l \<in> set (split_lines a). NL \<notin> set l"
    using split_lines_decompose[of a] by auto
  have "\<forall>l \<in> set ?ls. NL \<notin> set l"
    using n by (auto dest: in_set_butlastD)
  then have "split_lines (join_lines ?ls @ (?r @ b)) = ?ls @ split_lines (?r @ b)"
    by (rule split_lines_join)
  moreover have "a @ b = join_lines ?ls @ (?r @ b)"
    using d by (metis append.assoc)
  then have "split_lines (a @ b) = split_lines (join_lines ?ls @ (?r @ b))"
    by (rule arg_cong)
  ultimately show ?thesis by (rule back_subst[where P="\<lambda>x. split_lines (a @ b) = x", rotated])
qed

lemma last_split_lines_no_nl: "NL \<notin> set (last (split_lines s))"
  using split_lines_decompose[of s] split_lines_nonempty[of s] by auto

lemma last_split_lines_append_no_nl:
  "NL \<notin> set h \<Longrightarrow> last (split_lines (a @ h)) = last (split_lines a) @ h"
  using split_lines_append[of a h] split_lines_no_nl[of "last (split_lines a) @ h"]
    last_split_lines_no_nl[of a]
  by simp

lemma butlast_split_lines_append_no_nl:
  "NL \<notin> set h \<Longrightarrow> butlast (split_lines (a @ h)) = butlast (split_lines a)"
  using split_lines_append[of a h] split_lines_no_nl[of "last (split_lines a) @ h"]
    last_split_lines_no_nl[of a]
  by simp














section \<open>Streaming: lines that do not parse\<close>

lemma ws_len_data: "startsWith s ''data: '' \<Longrightarrow> ws_len s = 0"
  by (cases s) (auto simp: ws_len_def byte_def)

lemma ws_len_d: "ws_len (CHR ''d'' # r) = 0"
  by (simp add: ws_len_def byte_def)

lemma ws_len_end_lt:
  assumes "s \<noteq> []" "hd s = CHR ''d''"
  shows "ws_len_end s < length s"
proof -
  obtain r where s: "s = CHR ''d'' # r" using assms by (cases s) auto
  have z: "ws_len s = 0" unfolding s by (rule ws_len_d)
  have "ws_len_end s \<noteq> length s"
    using z assms(1) by (auto simp: ws_len_end_def split: if_splits)
  moreover have "ws_len_end s \<le> length s"
    by (auto simp: ws_len_end_def)
  ultimately show ?thesis by simp
qed

lemma trimEnd_keeps_d:
  "s \<noteq> [] \<Longrightarrow> hd s = CHR ''d'' \<Longrightarrow> trimEnd s \<noteq> []"
proof (induction s rule: trimEnd.induct)
  case (1 s)
  show ?case
  proof (cases "ws_len_end s = 0")
    case True
    then show ?thesis using "1.prems" by (simp add: trimEnd.simps[of s])
  next
    case False
    let ?s' = "take (length s - ws_len_end s) s"
    have lt: "ws_len_end s < length s" using ws_len_end_lt[OF "1.prems"] .
    then have ne: "?s' \<noteq> []" using "1.prems"(1) by simp
    have hd: "hd ?s' = CHR ''d''" using lt "1.prems" by (simp add: hd_take)
    have "trimEnd ?s' \<noteq> []"
      using "1.IH" False "1.prems"(1) ne hd by simp
    then show ?thesis
      using False "1.prems"(1) by (simp add: trimEnd.simps[of s])
  qed
qed

lemma trim_data_nonempty:
  assumes "startsWith line ''data: ''"
  shows "trim line \<noteq> []"
proof -
  obtain r where l: "line = CHR ''d'' # r" using assms by (cases line) auto
  have "trimStart line = line"
    using ws_len_data[OF assms] by (simp add: trimStart.simps[of line])
  then show ?thesis
    using trimEnd_keeps_d[of line] l by (simp add: trim_def)
qed


lemma unified_line_unparseable:
  assumes "parse P (drop 6 line) = None"
  shows "unified_line P st line = ([line @ [NL]], st)"
  using assms by (simp add: unified_line_def)

lemma format_line_unparseable:
  assumes "startsWith line ''data: ''" and "parse P (drop 6 line) = None"
  shows "format_line P st line = ([line @ [NL]], st)"
  using assms trim_data_nonempty[OF assms(1)] by (simp add: format_line_def)

lemma v1_line_unparseable:
  assumes "startsWith line ''data: ''" and "parse P (drop 6 line) = None"
    and "line \<noteq> ''data: [DONE]''"
  shows "v1_line m now P st line = ([], st)"
  using assms by (simp add: v1_line_def)

lemma V2_line_unparseable:
  assumes "startsWith line ''data: ''" and "parse P (drop 6 line) = None"
    and "line \<noteq> ''data: [DONE]''"
  shows "V2_line opts cm now P st line = ([], st)"
  using assms by (simp add: V2_line_def)

text \<open>
  Claim C5 on the code.  A line \<open>data: ...\<close> whose payload does not parse, and that is
  not the sentinel, is written back unchanged by the unified and the response-format
  handlers (\<open>unified_line_unparseable\<close>, \<open>format_line_unparseable\<close>).  Both Responses
  API handlers only log it and emit nothing (\<open>v1_line_unparseable\<close>,
  \<open>V2_line_unparseable\<close>); in the first one the \<open>catch\<close> block carries the comment
  ``Pass through original line if we can't parse it''.  The theorem runs the four handlers
  on the body \<open>data: {oops\<close> followed by a line feed.
\<close>

theorem unparseable_line_is_dropped_by_responses_handlers:
  "v1_handleStreamingResponse JUndefined 0 example_platform [''data: {oops'' @ [NL]] = []
   \<and> V2_handleStreamingResponse (constructor_v2 None) ''gpt-4o'' 0 example_platform
         [''data: {oops'' @ [NL]] = []
   \<and> unified_handleStreamingResponse example_platform [''data: {oops'' @ [NL]]
         = [''data: {oops'' @ [NL]]
   \<and> format_handleStreamingResponse example_platform [''data: {oops'' @ [NL]]
         = [''data: {oops'' @ [NL]]"
  by code_simp


section \<open>Refusals\<close>




lemma map_of_assoc_set_other: "k' \<noteq> k \<Longrightarrow> map_of (assoc_set kvs k v) k' = map_of kvs k'"
  by (induction kvs) auto


lemma js_get_set_other: "k' \<noteq> k \<Longrightarrow> js_get (js_set (JObj kvs) k v) k' = js_get (JObj kvs) k'"
  by (simp add: js_get_def js_set_def map_of_assoc_set_other)

















section \<open>Request transformers: what changes in the caller's objects\<close>

lemma limit_tokens_eq:
  "limit_tokens l v = (if num_truthy v then Some (min (the v) l) else v)"
  by (simp add: limit_tokens_def num_truthy_def split: option.splits)

lemma MaxToken_no_limit:
  "\<not> num_truthy lim \<Longrightarrow> MaxToken_transformRequestIn lim h request = (h, request)"
  by (simp add: MaxToken_transformRequestIn_def)

lemma MaxToken_limit:
  assumes "num_truthy lim"
  shows "MaxToken_transformRequestIn lim h request =
           (h\<lparr> request_objs := (request_objs h)[request :=
                  (request_objs h ! request)
                    \<lparr> rq_max_tokens := limit_tokens (the lim) (rq_max_tokens (request_objs h ! request)),
                      rq_max_completion_tokens :=
                        limit_tokens (the lim) (rq_max_completion_tokens (request_objs h ! request)) \<rparr>] \<rparr>,
            request)"
  using assms by (simp add: MaxToken_transformRequestIn_def Let_def)

lemma addJsonKeyword_requests: "request_objs (addJsonKeyword h msgs) = request_objs h"
  by (simp add: addJsonKeyword_def Let_def split: option.splits message_content.splits)

lemma ensureJsonKeyword_requests:
  "ensureJsonKeyword h msgs = Inr h1 \<Longrightarrow> request_objs h1 = request_objs h"
  by (auto simp: ensureJsonKeyword_def addJsonKeyword_requests split: sum.splits if_splits)

lemma O3_not_o3:
  "\<not> isO3Model (rq_model (request_objs h ! request)) \<Longrightarrow>
     O3_transformRequestIn h request = Inr (h, request)"
  by (simp add: O3_transformRequestIn_def Let_def)

lemma O3_result:
  assumes "O3_transformRequestIn h request = Inr (h', out)"
    and "isO3Model (rq_model (request_objs h ! request))"
  shows "\<exists>c. request_objs h' = request_objs h @ [c] \<and> out = length (request_objs h)
             \<and> rq_messages c = rq_messages (request_objs h ! request)
             \<and> rq_model c = rq_model (request_objs h ! request)"
proof -
  let ?r = "request_objs h ! request"
  let ?c1 = "if num_truthy (rq_max_tokens ?r)
             then ?r\<lparr> rq_max_completion_tokens := rq_max_tokens ?r, rq_max_tokens := None \<rparr>
             else ?r"
  let ?c2 = "if js_truthy (rq_prediction ?c1) then ?c1\<lparr> rq_prediction := JUndefined \<rparr> else ?c1"
  let ?c3 = "?c2\<lparr> rq_params :=
                filter (\<lambda>kv. \<not> (fst kv \<in> set unsupportedParams \<and> snd kv \<noteq> JUndefined))
                  (rq_params ?c2) \<rparr>"
  let ?jm = "js_truthy (rq_response_format ?c2) \<and>
               (js_get (rq_response_format ?c2) ''type'' = JStr ''json_object'' \<or>
                js_get (rq_response_format ?c2) ''type'' = JStr ''json_schema'')"
  let ?e = "if ?jm then ensureJsonKeyword h (rq_messages ?c2) else Inr h"
  have eq: "O3_transformRequestIn h request =
          (case ?e of Inl e \<Rightarrow> Inl e
           | Inr h1 \<Rightarrow> Inr (h1\<lparr> request_objs := request_objs h1 @ [?c3] \<rparr>, length (request_objs h1)))"
    using assms(2) unfolding O3_transformRequestIn_def Let_def by simp
  from assms(1) eq obtain h1 where e: "?e = Inr h1"
    and h': "h' = h1\<lparr> request_objs := request_objs h1 @ [?c3] \<rparr>"
    and out: "out = length (request_objs h1)"
    by (cases ?e) auto
  have rq: "request_objs h1 = request_objs h"
  proof (cases ?jm)
    case True
    then have "ensureJsonKeyword h (rq_messages ?c2) = Inr h1" using e by simp
    then show ?thesis by (rule ensureJsonKeyword_requests)
  next
    case False
    then show ?thesis using e by auto
  qed
  have m: "rq_messages ?c3 = rq_messages ?r" by simp
  have n: "rq_model ?c3 = rq_model ?r" by simp
  show ?thesis
    using h' out rq m n by (intro exI[of _ ?c3]) simp
qed

lemma O3_frame:
  assumes "request < length (request_objs h)"
    and r: "O3_transformRequestIn h request = Inr (h', out)"
  shows "request_objs h' ! request = request_objs h ! request
       \<and> take (length (request_objs h)) (request_objs h') = request_objs h
       \<and> (out = request \<and> h' = h
          \<or> out = length (request_objs h) \<and> length (request_objs h') = Suc out
            \<and> rq_messages (request_objs h' ! out) = rq_messages (request_objs h ! request))"
proof (cases "isO3Model (rq_model (request_objs h ! request))")
  case True
  from O3_result[OF r True] obtain c where
    c: "request_objs h' = request_objs h @ [c]" "out = length (request_objs h)"
       "rq_messages c = rq_messages (request_objs h ! request)" by blast
  show ?thesis using c assms(1) by (simp add: nth_append)
next
  case False
  then show ?thesis using r O3_not_o3[OF False] by simp
qed

text \<open>
  Claim C8, as the code has it.  \<open>MaxTokenTransformer.transformRequestIn\<close> returns the
  object it was given and assigns to that object: of all the objects of the store only
  this request changes, and of its properties only \<open>max_tokens\<close> and
  \<open>max_completion_tokens\<close>, each lowered to the limit when the limit and the property are
  both set and non-zero; with no limit nothing changes.
  \<open>O3Transformer.transformRequestIn\<close> never assigns to a property of a request object
  that exists before the call: it returns either the given object, with the store as
  it was, or a new object holding the same \<open>messages\<close> array.
\<close>

theorem request_transformers_frame:
  assumes "request < length (request_objs h)"
  shows "snd (MaxToken_transformRequestIn lim h request) = request
       \<and> message_objs (fst (MaxToken_transformRequestIn lim h request)) = message_objs h
       \<and> block_objs (fst (MaxToken_transformRequestIn lim h request)) = block_objs h
       \<and> length (request_objs (fst (MaxToken_transformRequestIn lim h request)))
           = length (request_objs h)
       \<and> (\<forall>i. i \<noteq> request \<longrightarrow>
             request_objs (fst (MaxToken_transformRequestIn lim h request)) ! i = request_objs h ! i)
       \<and> request_objs (fst (MaxToken_transformRequestIn lim h request)) ! request
           = (request_objs h ! request)
               \<lparr> rq_max_tokens :=
                   (if num_truthy lim \<and> num_truthy (rq_max_tokens (request_objs h ! request))
                    then Some (min (the (rq_max_tokens (request_objs h ! request))) (the lim))
                    else rq_max_tokens (request_objs h ! request)),
                 rq_max_completion_tokens :=
                   (if num_truthy lim \<and> num_truthy (rq_max_completion_tokens (request_objs h ! request))
                    then Some (min (the (rq_max_completion_tokens (request_objs h ! request))) (the lim))
                    else rq_max_completion_tokens (request_objs h ! request)) \<rparr>
       \<and> (\<forall>h' out. O3_transformRequestIn h request = Inr (h', out) \<longrightarrow>
             request_objs h' ! request = request_objs h ! request
             \<and> take (length (request_objs h)) (request_objs h') = request_objs h
             \<and> (out = request \<and> h' = h
                \<or> out = length (request_objs h) \<and> length (request_objs h') = Suc out
                  \<and> rq_messages (request_objs h' ! out) = rq_messages (request_objs h ! request)))"
proof (cases "num_truthy lim")
  case True
  show ?thesis
    unfolding MaxToken_limit[OF True, of h request]
    using assms O3_frame[OF assms] by (simp add: limit_tokens_eq True)
next
  case False
  show ?thesis
    unfolding MaxToken_no_limit[OF False, of h request]
    using assms O3_frame[OF assms] by (simp add: False)
qed

theorem request_transformers_frame_witness:
  "MaxToken_transformRequestIn (Some 1000) example_store 0
     = (example_store\<lparr> request_objs := [example_request\<lparr> rq_max_tokens := Some 1000 \<rparr>] \<rparr>, 0)
   \<and> message_objs (fst (MaxToken_transformRequestIn (Some 1000) example_store 0))
       = message_objs example_store
   \<and> request_objs (fst (MaxToken_transformRequestIn (Some 1000) example_store 0)) ! 0
       = example_request\<lparr> rq_max_tokens := Some 1000, rq_max_completion_tokens := None \<rparr>
   \<and> (\<exists>h'. O3_transformRequestIn example_store 0 = Inr (h', 1) \<and>
             request_objs h' ! 0 = example_request \<and>
             rq_messages (request_objs h' ! 1) = [0])"
proof -
  have h: "(0::nat) < length (request_objs example_store)" by code_simp
  note inst = request_transformers_frame[OF h, of "Some 1000"]
  have r0: "request_objs example_store ! 0 = example_request" by (simp add: example_store_def)
  have a: "message_objs (fst (MaxToken_transformRequestIn (Some 1000) example_store 0))
       = message_objs example_store"
    using inst by blast
  have "request_objs (fst (MaxToken_transformRequestIn (Some 1000) example_store 0)) ! 0
           = (request_objs example_store ! 0)
               \<lparr> rq_max_tokens :=
                   (if num_truthy (Some 1000) \<and> num_truthy (rq_max_tokens (request_objs example_store ! 0))
                    then Some (min (the (rq_max_tokens (request_objs example_store ! 0))) (the (Some 1000)))
                    else rq_max_tokens (request_objs example_store ! 0)),
                 rq_max_completion_tokens :=
                   (if num_truthy (Some 1000) \<and> num_truthy (rq_max_completion_tokens (request_objs example_store ! 0))
                    then Some (min (the (rq_max_completion_tokens (request_objs example_store ! 0))) (the (Some 1000)))
                    else rq_max_completion_tokens (request_objs example_store ! 0)) \<rparr>"
    using inst by blast
  then have b: "request_objs (fst (MaxToken_transformRequestIn (Some 1000) example_store 0)) ! 0
       = example_request\<lparr> rq_max_tokens := Some 1000, rq_max_completion_tokens := None \<rparr>"
    unfolding r0 by (simp add: num_truthy_def example_request_def)
  let ?h1 = "\<lparr> request_objs =
                        [example_request,
                         example_request\<lparr> rq_max_tokens := None,
                                          rq_max_completion_tokens := Some 5000,
                                          rq_params := [(''temperature'', JNum 1)] \<rparr>],
                      message_objs =
                        [\<lparr> m_role = JStr ''user'',
                           m_content = ContentString (''hi'' @ json_suffix), m_other = [] \<rparr>],
                      block_objs = [] \<rparr>"
  have e: "O3_transformRequestIn example_store 0
             = Inr (\<lparr> request_objs =
                        [example_request,
                         example_request\<lparr> rq_max_tokens := None,
                                          rq_max_completion_tokens := Some 5000,
                                          rq_params := [(''temperature'', JNum 1)] \<rparr>],
                      message_objs =
                        [\<lparr> m_role = JStr ''user'',
                           m_content = ContentString (''hi'' @ json_suffix), m_other = [] \<rparr>],
                      block_objs = [] \<rparr>, 1)"
    by code_simp
  have o: "\<forall>h' out. O3_transformRequestIn example_store 0 = Inr (h', out) \<longrightarrow>
             request_objs h' ! 0 = request_objs example_store ! 0
             \<and> take (length (request_objs example_store)) (request_objs h') = request_objs example_store
             \<and> (out = 0 \<and> h' = example_store
                \<or> out = length (request_objs example_store) \<and> length (request_objs h') = Suc out
                  \<and> rq_messages (request_objs h' ! out) = rq_messages (request_objs example_store ! 0))"
    using inst by blast
  have c: "\<exists>h'. O3_transformRequestIn example_store 0 = Inr (h', 1) \<and>
             request_objs h' ! 0 = example_request \<and>
             rq_messages (request_objs h' ! 1) = [0]"
  proof -
    from o e have f: "request_objs ?h1 ! 0 = request_objs example_store ! 0" by blast
    have g: "rq_messages (request_objs ?h1 ! 1) = [0]" by (simp add: example_request_def)
    show ?thesis using e f[unfolded r0] g by blast
  qed
  have d: "MaxToken_transformRequestIn (Some 1000) example_store 0
     = (example_store\<lparr> request_objs := [example_request\<lparr> rq_max_tokens := Some 1000 \<rparr>] \<rparr>, 0)"
    by code_simp
  show ?thesis using a b c d by blast
qed

text \<open>
  Claim C8 as stated fails: with the limit 1000, \<open>MaxTokenTransformer\<close> changes
  \<open>max_tokens\<close> of the caller's request from 5000 to 1000.
\<close>

theorem MaxToken_lowers_the_callers_max_tokens:
  "rq_max_tokens (request_objs example_store ! 0) = Some 5000
   \<and> snd (MaxToken_transformRequestIn (MaxToken_constructor (Some 1000) None) example_store 0) = 0
   \<and> rq_max_tokens
        (request_objs
           (fst (MaxToken_transformRequestIn (MaxToken_constructor (Some 1000) None) example_store 0)) ! 0)
       = Some 1000
   \<and> fst (MaxToken_transformRequestIn (MaxToken_constructor (Some 1000) None) example_store 0)
       \<noteq> example_store"
  by code_simp

text \<open>
  The copy that \<open>O3Transformer\<close> makes is shallow, so \<open>ensureJsonKeyword\<close> appends to a
  message that the caller's request holds as well.
\<close>

lemma O3_appends_to_the_callers_message:
  "m_content (message_objs example_store ! 0) = ContentString ''hi''
   \<and> (case O3_transformRequestIn example_store 0 of
         Inl e \<Rightarrow> False
       | Inr res \<Rightarrow>
           rq_messages (request_objs (fst res) ! 0) = [0] \<and>
           m_content (message_objs (fst res) ! 0)
             = ContentString (''hi'' @ [NL, NL] @ ''Please respond in JSON format.''))"
  by code_simp

end
